theory Spec2Isabelle
  imports Main
begin

section \<open>Bytes and text\<close>

text \<open>
  The source is a sequence of bytes: a list of 8-bit characters. A piece of text (a
  Python \<open>str\<close>) is represented by its UTF-8 encoding, so that it is a list of bytes as
  well; its characters are the byte sequences of its code points. Comparison,
  concatenation and the search for an ASCII separator then act on the bytes; slicing by
  position and stripping act on the characters.
\<close>

definition byte :: "char \<Rightarrow> nat" where
  "byte c = of_char c"

definition continuation :: "char \<Rightarrow> bool" where
  "continuation c = (0x80 \<le> byte c \<and> byte c \<le> 0xBF)"

text \<open>The bytes that may come second after the lead byte of a sequence of three or four.\<close>

definition second_ok :: "char \<Rightarrow> char \<Rightarrow> bool" where
  "second_ok lead c =
     (if byte lead = 0xE0 then 0xA0 \<le> byte c \<and> byte c \<le> 0xBF
      else if byte lead = 0xED then 0x80 \<le> byte c \<and> byte c \<le> 0x9F
      else if byte lead = 0xF0 then 0x90 \<le> byte c \<and> byte c \<le> 0xBF
      else if byte lead = 0xF4 then 0x80 \<le> byte c \<and> byte c \<le> 0x8F
      else continuation c)"

text \<open>The replacement character U+FFFD.\<close>

definition replacement :: string where
  "replacement = [CHR 0xEF, CHR 0xBF, CHR 0xBD]"

text \<open>
  \<open>bytes.decode("utf-8", errors="replace")\<close>, character by character: a well-formed
  sequence is one character; a byte that cannot start a sequence, and the longest
  beginning of a sequence that its next byte (or the end of the input) breaks off, is
  replaced by one U+FFFD, and decoding goes on after it.
\<close>

fun decode :: "string \<Rightarrow> string list" where
  "decode [] = []"
| "decode (c # cs) =
     (if byte c < 0x80 then [c] # decode cs
      else if 0xC2 \<le> byte c \<and> byte c \<le> 0xDF then
        (case cs of
           [] \<Rightarrow> [replacement]
         | c1 # r1 \<Rightarrow>
             if continuation c1 then [c, c1] # decode r1 else replacement # decode cs)
      else if 0xE0 \<le> byte c \<and> byte c \<le> 0xEF then
        (case cs of
           [] \<Rightarrow> [replacement]
         | c1 # r1 \<Rightarrow>
             if \<not> second_ok c c1 then replacement # decode cs
             else
               (case r1 of
                  [] \<Rightarrow> [replacement]
                | c2 # r2 \<Rightarrow>
                    if continuation c2 then [c, c1, c2] # decode r2
                    else replacement # decode r1))
      else if 0xF0 \<le> byte c \<and> byte c \<le> 0xF4 then
        (case cs of
           [] \<Rightarrow> [replacement]
         | c1 # r1 \<Rightarrow>
             if \<not> second_ok c c1 then replacement # decode cs
             else
               (case r1 of
                  [] \<Rightarrow> [replacement]
                | c2 # r2 \<Rightarrow>
                    if \<not> continuation c2 then replacement # decode r1
                    else
                      (case r2 of
                         [] \<Rightarrow> [replacement]
                       | c3 # r3 \<Rightarrow>
                           if continuation c3 then [c, c1, c2, c3] # decode r3
                           else replacement # decode r2)))
      else replacement # decode cs)"

text \<open>ASCII bytes are their own characters.\<close>

lemma decode_ascii: "list_all (\<lambda>c. byte c < 0x80) s \<Longrightarrow> decode s = map (\<lambda>c. [c]) s"
  by (induction s) simp_all

lemma decode_ascii_text: "list_all (\<lambda>c. byte c < 0x80) s \<Longrightarrow> concat (decode s) = s"
  by (induction s) simp_all

section \<open>Syntax trees\<close>

text \<open>
  A syntax-tree node carries a type tag, its byte range, the rows of its start and end
  points, and its ordered children; a child may be labelled with the name of the field
  it fills in its parent.
\<close>

datatype node = Node (type: string) (start_byte: nat) (end_byte: nat)
  (start_row: nat) (end_row: nat) (entries: "(string option \<times> node) list")

definition children :: "node \<Rightarrow> node list" where
  "children n = map snd (entries n)"

definition child_by_field_name :: "node \<Rightarrow> string \<Rightarrow> node option" where
  "child_by_field_name n f = map_option snd (find (\<lambda>e. fst e = Some f) (entries n))"

definition child :: "node \<Rightarrow> nat \<Rightarrow> node option" where
  "child n i = (if i < length (children n) then Some (children n ! i) else None)"

text \<open>
  The position of the child returned by \<open>child_by_field_name\<close>; two children of one
  node are the same node exactly when their positions agree.
\<close>

definition field_index :: "node \<Rightarrow> string \<Rightarrow> nat option" where
  "field_index n f = map_option fst (find (\<lambda>e. fst (snd e) = Some f) (enumerate 0 (entries n)))"

text \<open>
  A node as the program holds it: the node together with its chain of ancestors,
  nearest first, so that \<open>node.parent\<close> can be followed up to the root.
\<close>

type_synonym nref = "node \<times> node list"

definition parent :: "nref \<Rightarrow> nref option" where
  "parent h = (case snd h of [] \<Rightarrow> None | p # ps \<Rightarrow> Some (p, ps))"

text \<open>The bytes of the node's range, decoded.\<close>

definition get_node_text :: "node \<Rightarrow> string \<Rightarrow> string" where
  "get_node_text n source =
     concat (decode (take (end_byte n - start_byte n) (drop (start_byte n) source)))"

section \<open>Tree cursor and \<open>walk_tree\<close>\<close>

text \<open>
  The cursor of the parsing library: the current node and, for every level above it, the
  parent and the siblings still to the right. Each move returns the moved cursor, or
  \<open>None\<close> where the library returns false and leaves the cursor alone. A cursor made
  by \<open>node.walk()\<close> cannot leave the subtree of that node.
\<close>

record cursor =
  current :: node
  frames :: "(node \<times> node list) list"

definition node_walk :: "node \<Rightarrow> cursor" where
  "node_walk n = \<lparr>current = n, frames = []\<rparr>"

definition cursor_node :: "cursor \<Rightarrow> nref" where
  "cursor_node c = (current c, map fst (frames c))"

definition goto_first_child :: "cursor \<Rightarrow> cursor option" where
  "goto_first_child c =
     (case children (current c) of
        [] \<Rightarrow> None
      | x # xs \<Rightarrow> Some \<lparr>current = x, frames = (current c, xs) # frames c\<rparr>)"

definition goto_next_sibling :: "cursor \<Rightarrow> cursor option" where
  "goto_next_sibling c =
     (case frames c of
        (p, y # ys) # fs \<Rightarrow> Some \<lparr>current = y, frames = (p, ys) # fs\<rparr>
      | _ \<Rightarrow> None)"

definition goto_parent :: "cursor \<Rightarrow> cursor option" where
  "goto_parent c =
     (case frames c of
        [] \<Rightarrow> None
      | (p, ys) # fs \<Rightarrow> Some \<lparr>current = p, frames = fs\<rparr>)"

fun count_nodes :: "node \<Rightarrow> nat" where
  "count_nodes (Node t s e sr er ks) = Suc (sum_list (map (\<lambda>(l, c). count_nodes c) ks))"

definition count_forest :: "node list \<Rightarrow> nat" where
  "count_forest ns = sum_list (map count_nodes ns)"

fun pending_weight :: "(node \<times> node list) list \<Rightarrow> nat" where
  "pending_weight [] = 0"
| "pending_weight ((p, ys) # fs) = count_forest ys + pending_weight fs"

definition walk_measure :: "cursor \<times> bool \<Rightarrow> nat" where
  "walk_measure s = (case s of (c, visited) \<Rightarrow>
     2 * pending_weight (frames c) + length (frames c)
       + (if visited then 1 else 2 * count_nodes (current c)))"

text \<open>
  The loop of \<open>walk_tree\<close>, from the cursor and the flag \<open>visited\<close>: the nodes it yields,
  in order, and the cursor as the loop leaves it.
\<close>

function walk_loop :: "cursor \<Rightarrow> bool \<Rightarrow> nref list \<times> cursor" where
  "walk_loop c visited =
     (let out = (if visited then [] else [cursor_node c]) in
      case (if visited then None else goto_first_child c) of
        Some c1 \<Rightarrow> (let (r, cf) = walk_loop c1 False in (out @ r, cf))
      | None \<Rightarrow>
          (case goto_next_sibling c of
             Some c2 \<Rightarrow> (let (r, cf) = walk_loop c2 False in (out @ r, cf))
           | None \<Rightarrow>
               (case goto_parent c of
                  Some c3 \<Rightarrow> (let (r, cf) = walk_loop c3 True in (out @ r, cf))
                | None \<Rightarrow> (out, c))))"
  by pat_completeness auto

lemma count_nodes_children: "count_nodes n = Suc (count_forest (children n))"
  by (cases n) (simp add: count_forest_def children_def comp_def case_prod_unfold)

lemma count_forest_Cons [simp]: "count_forest (x # xs) = count_nodes x + count_forest xs"
  by (simp add: count_forest_def)

lemma count_nodes_pos: "0 < count_nodes n"
  by (cases n) simp

lemma first_child_measure:
  "goto_first_child c = Some c1 \<Longrightarrow> walk_measure (c1, False) < walk_measure (c, False)"
  by (auto simp: goto_first_child_def walk_measure_def count_nodes_children [of "current c"]
      split: list.splits)

lemma next_sibling_measure:
  "goto_next_sibling c = Some c2 \<Longrightarrow> goto_first_child c = None \<or> v \<Longrightarrow>
     walk_measure (c2, False) < walk_measure (c, v)"
  by (auto simp: goto_next_sibling_def goto_first_child_def walk_measure_def
      count_nodes_children [of "current c"] split: list.splits prod.splits)

lemma parent_measure:
  "goto_parent c = Some c3 \<Longrightarrow> goto_next_sibling c = None \<Longrightarrow>
     walk_measure (c3, True) < walk_measure (c, v)"
  using count_nodes_pos [of "current c"]
  by (auto simp: goto_parent_def goto_next_sibling_def walk_measure_def
      split: list.splits prod.splits)

termination walk_loop
proof (relation "measure walk_measure")
  show "wf (measure walk_measure)" by simp
next
  fix c :: cursor and visited :: bool and c1
  assume "(if visited then None else goto_first_child c) = Some c1"
  then show "((c1, False), (c, visited)) \<in> measure walk_measure"
    by (auto simp: first_child_measure split: if_splits)
next
  fix c :: cursor and visited :: bool and c2
  assume "(if visited then None else goto_first_child c) = None"
    and "goto_next_sibling c = Some c2"
  then show "((c2, False), (c, visited)) \<in> measure walk_measure"
    by (auto simp: next_sibling_measure split: if_splits)
next
  fix c :: cursor and visited :: bool and c3
  assume "goto_next_sibling c = None" and "goto_parent c = Some c3"
  then show "((c3, True), (c, visited)) \<in> measure walk_measure"
    by (auto simp: parent_measure)
qed

declare walk_loop.simps [simp del]

definition walk_tree :: "node \<Rightarrow> nref list" where
  "walk_tree n = fst (walk_loop (node_walk n) False)"

text \<open>Depth-first pre-order, written by recursion on the tree: the reference traversal.\<close>

lemma size_child: "x \<in> set (children n) \<Longrightarrow> size x < size n"
  by (cases n) (auto simp: children_def less_Suc_eq_le intro!: size_list_estimation')

function preorder :: "node list \<Rightarrow> node \<Rightarrow> nref list" where
  "preorder anc n = (n, anc) # concat (map (preorder (n # anc)) (children n))"
  by pat_completeness auto

termination preorder
  by (relation "measure (\<lambda>(anc, n). size n)") (auto simp: size_child)

declare preorder.simps [simp del]

fun pending :: "(node \<times> node list) list \<Rightarrow> nref list" where
  "pending [] = []"
| "pending ((p, ys) # fs) = concat (map (preorder (p # map fst fs)) ys) @ pending fs"

definition cursor_root :: "cursor \<Rightarrow> cursor" where
  "cursor_root c = \<lparr>current = (if frames c = [] then current c else fst (last (frames c))),
                     frames = []\<rparr>"

lemma walk_loop_preorder:
  "walk_loop c visited =
     ((if visited then [] else preorder (map fst (frames c)) (current c)) @ pending (frames c),
      cursor_root c)"
proof (induction c visited rule: walk_loop.induct)
  case (1 c visited)
  show ?case
  proof (cases "\<not> visited \<and> goto_first_child c \<noteq> None")
    case True
    then obtain c1 where c1: "goto_first_child c = Some c1" and nv: "\<not> visited" by auto
    from c1 obtain x xs where ch: "children (current c) = x # xs"
      and c1_eq: "c1 = \<lparr>current = x, frames = (current c, xs) # frames c\<rparr>"
      by (auto simp: goto_first_child_def split: list.splits)
    have step: "walk_loop c visited =
        (cursor_node c # fst (walk_loop c1 False), snd (walk_loop c1 False))"
      using c1 nv by (subst walk_loop.simps) (simp add: Let_def case_prod_unfold)
    have ih: "walk_loop c1 False =
        (preorder (map fst (frames c1)) (current c1) @ pending (frames c1), cursor_root c1)"
      using "1.IH"(3) [OF refl, of c1] c1 nv by simp
    have root: "cursor_root c1 = cursor_root c"
      using c1_eq by (simp add: cursor_root_def)
    show ?thesis
      unfolding step ih using nv ch c1_eq root
      by (simp add: preorder.simps [of _ "current c"] cursor_node_def)
  next
    case no_child: False
    then have fc: "(if visited then None else goto_first_child c) = None" by auto
    have out: "(if visited then [] else [cursor_node c])
                 = (if visited then [] else preorder (map fst (frames c)) (current c))"
      using no_child
      by (auto simp: goto_first_child_def preorder.simps [of _ "current c"] cursor_node_def
          split: list.splits)
    show ?thesis
    proof (cases "goto_next_sibling c")
      case (Some c2)
      then obtain p y ys fs where fr: "frames c = (p, y # ys) # fs"
        and c2_eq: "c2 = \<lparr>current = y, frames = (p, ys) # fs\<rparr>"
        by (auto simp: goto_next_sibling_def split: list.splits prod.splits)
      have step: "walk_loop c visited =
          ((if visited then [] else [cursor_node c]) @ fst (walk_loop c2 False),
           snd (walk_loop c2 False))"
        using fc Some by (subst walk_loop.simps) (simp add: Let_def case_prod_unfold)
      have ih: "walk_loop c2 False =
          (preorder (map fst (frames c2)) (current c2) @ pending (frames c2), cursor_root c2)"
        using "1.IH"(2) [OF refl fc Some] by simp
      have root: "cursor_root c2 = cursor_root c"
        using c2_eq fr by (simp add: cursor_root_def)
      show ?thesis
        unfolding step ih out using fr c2_eq root by simp
    next
      case None
      show ?thesis
      proof (cases "goto_parent c")
        case (Some c3)
        then obtain p ys fs where fr: "frames c = (p, ys) # fs"
          and c3_eq: "c3 = \<lparr>current = p, frames = fs\<rparr>"
          by (auto simp: goto_parent_def split: list.splits prod.splits)
        from None fr have ys: "ys = []"
          by (auto simp: goto_next_sibling_def split: list.splits)
        have step: "walk_loop c visited =
            ((if visited then [] else [cursor_node c]) @ fst (walk_loop c3 True),
             snd (walk_loop c3 True))"
          using fc None Some by (subst walk_loop.simps) (simp add: Let_def case_prod_unfold)
        have ih: "walk_loop c3 True = (pending (frames c3), cursor_root c3)"
          using "1.IH"(1) [OF refl fc None Some] by simp
        have root: "cursor_root c3 = cursor_root c"
          using c3_eq fr by (cases fs) (simp_all add: cursor_root_def)
        show ?thesis
          unfolding step ih out using fr c3_eq ys root by simp
      next
        case np: None
        then have fr: "frames c = []"
          by (auto simp: goto_parent_def split: list.splits prod.splits)
        have "walk_loop c visited = ((if visited then [] else [cursor_node c]), c)"
          using fc None np by (subst walk_loop.simps) (simp add: Let_def)
        then show ?thesis using out fr by (simp add: cursor_root_def)
      qed
    qed
  qed
qed

lemma walk_tree_preorder: "walk_tree n = preorder [] n"
  by (simp add: walk_tree_def walk_loop_preorder node_walk_def)

section \<open>Strings as the extractors use them\<close>

definition dquote :: char where
  "dquote = CHR 0x22"

definition squote :: char where
  "squote = CHR 0x27"

definition startswith :: "string \<Rightarrow> string \<Rightarrow> bool" where
  "startswith s p = (take (length p) s = p)"

text \<open>
  The slice \<open>s[a:-b]\<close> for \<open>b > 0\<close>, by characters: empty when the text has fewer than
  \<open>a + b\<close> of them.
\<close>

definition slice_inner :: "nat \<Rightarrow> nat \<Rightarrow> string \<Rightarrow> string" where
  "slice_inner a b s = concat (take (length (decode s) - b - a) (drop a (decode s)))"

text \<open>
  The characters that \<open>str.strip()\<close> removes: U+0009 to U+000D, U+001C to U+0020,
  U+0085, U+00A0, U+1680, U+2000 to U+200A, U+2028, U+2029, U+202F, U+205F and U+3000.
\<close>

definition is_space :: "string \<Rightarrow> bool" where
  "is_space c = (c \<in> set
     ([[CHR 0x09], [CHR 0x0A], [CHR 0x0B], [CHR 0x0C], [CHR 0x0D],
       [CHR 0x1C], [CHR 0x1D], [CHR 0x1E], [CHR 0x1F], [CHR 0x20],
       [CHR 0xC2, CHR 0x85], [CHR 0xC2, CHR 0xA0], [CHR 0xE1, CHR 0x9A, CHR 0x80]]
      @ map (\<lambda>b. [CHR 0xE2, CHR 0x80, b])
          [CHR 0x80, CHR 0x81, CHR 0x82, CHR 0x83, CHR 0x84, CHR 0x85, CHR 0x86,
           CHR 0x87, CHR 0x88, CHR 0x89, CHR 0x8A, CHR 0xA8, CHR 0xA9, CHR 0xAF]
      @ [[CHR 0xE2, CHR 0x81, CHR 0x9F], [CHR 0xE3, CHR 0x80, CHR 0x80]]))"

definition strip_where :: "('a \<Rightarrow> bool) \<Rightarrow> 'a list \<Rightarrow> 'a list" where
  "strip_where P s = rev (dropWhile P (rev (dropWhile P s)))"

definition strip :: "string \<Rightarrow> string" where
  "strip s = concat (strip_where is_space (decode s))"

definition strip_chars :: "string \<Rightarrow> string \<Rightarrow> string" where
  "strip_chars s cs = concat (strip_where (\<lambda>c. c \<in> set (map (\<lambda>x. [x]) cs)) (decode s))"

fun join :: "string \<Rightarrow> string list \<Rightarrow> string" where
  "join sep [] = []"
| "join sep [x] = x"
| "join sep (x # y # ys) = x @ sep @ join sep (y # ys)"

text \<open>The start of the last occurrence of \<open>sep\<close> in \<open>s\<close>, as \<open>s.rfind(sep)\<close>.\<close>

fun rfind :: "string \<Rightarrow> string \<Rightarrow> nat option" where
  "rfind [] sep = (if sep = [] then Some 0 else None)"
| "rfind (c # cs) sep =
     (case rfind cs sep of
        Some i \<Rightarrow> Some (Suc i)
      | None \<Rightarrow> if startswith (c # cs) sep then Some 0 else None)"

definition contains :: "string \<Rightarrow> string \<Rightarrow> bool" where
  "contains s sep = (rfind s sep \<noteq> None)"

text \<open>\<open>s.rsplit(sep, 1)\<close>: one split at the last occurrence.\<close>

definition rsplit1 :: "string \<Rightarrow> string \<Rightarrow> string list" where
  "rsplit1 s sep =
     (case rfind s sep of
        None \<Rightarrow> [s]
      | Some i \<Rightarrow> [take i s, drop (i + length sep) s])"

section \<open>Entities\<close>

record FunctionInfo =
  name :: string
  line_start :: nat
  line_end :: nat
  signature :: string
  class_name :: "string option"
  docstring :: "string option"

record ClassInfo =
  name :: string
  line_start :: nat
  line_end :: nat
  bases :: "string option"
  docstring :: "string option"

record ImportInfo =
  module :: string
  line :: nat
  import_alias :: "string option"

record VariableInfo =
  name :: string
  line :: nat
  scope :: string
  class_name :: "string option"
  type_hint :: "string option"

record CallInfo =
  callee_name :: string
  line :: nat
  caller_function :: "string option"

section \<open>The Python extractor\<close>

text \<open>\<open>_get_parent_class\<close>: the loop over \<open>node.parent\<close>, \<open>parent.parent\<close>, ...\<close>

fun py_parent_class_loop :: "node list \<Rightarrow> string \<Rightarrow> string option" where
  "py_parent_class_loop [] source = None"
| "py_parent_class_loop (p # ps) source =
     (if type p = ''class_definition'' then
        (case child_by_field_name p ''name'' of
           Some name_node \<Rightarrow> Some (get_node_text name_node source)
         | None \<Rightarrow> py_parent_class_loop ps source)
      else py_parent_class_loop ps source)"

definition py_get_parent_class :: "nref \<Rightarrow> string \<Rightarrow> string option" where
  "py_get_parent_class h source = py_parent_class_loop (snd h) source"

text \<open>
  \<open>_extract_docstring\<close>: the loop over the children of the body. A \<open>return\<close> ends it
  with a docstring, \<open>break\<close> ends it with \<open>None\<close>, and every other path goes on to the
  next child.
\<close>

fun py_docstring_loop :: "node list \<Rightarrow> string \<Rightarrow> string option" where
  "py_docstring_loop [] source = None"
| "py_docstring_loop (c # rest) source =
     (if type c = ''expression_statement'' then
        (case child c 0 of
           Some expr \<Rightarrow>
             if type expr = ''string'' then
               (let text = get_node_text expr source in
                if startswith text [dquote, dquote, dquote]
                   \<or> startswith text [squote, squote, squote]
                then Some (strip (slice_inner 3 3 text))
                else if startswith text [dquote] \<or> startswith text [squote]
                then Some (strip (slice_inner 1 1 text))
                else py_docstring_loop rest source)
             else py_docstring_loop rest source
         | None \<Rightarrow> py_docstring_loop rest source)
      else if type c \<noteq> ''comment'' then None
      else py_docstring_loop rest source)"

definition py_extract_docstring :: "node option \<Rightarrow> string \<Rightarrow> string option" where
  "py_extract_docstring body_node source =
     (case body_node of
        None \<Rightarrow> None
      | Some b \<Rightarrow> py_docstring_loop (children b) source)"

definition py_extract_function :: "nref \<Rightarrow> string \<Rightarrow> FunctionInfo" where
  "py_extract_function h source =
     (let node = fst h;
          name = (case child_by_field_name node ''name'' of
                    Some name_node \<Rightarrow> get_node_text name_node source
                  | None \<Rightarrow> ''<unknown>'');
          params = (case child_by_field_name node ''parameters'' of
                      Some params_node \<Rightarrow> get_node_text params_node source
                    | None \<Rightarrow> ''()'');
          return_type = (case child_by_field_name node ''return_type'' of
                           Some return_node \<Rightarrow> get_node_text return_node source
                         | None \<Rightarrow> []);
          signature = ''def '' @ name @ params
                        @ (if return_type \<noteq> [] then '' -> '' @ return_type else [])
      in \<lparr>FunctionInfo.name = name,
          line_start = start_row node + 1,
          line_end = end_row node + 1,
          signature = signature,
          class_name = py_get_parent_class h source,
          docstring = py_extract_docstring (child_by_field_name node ''body'') source\<rparr>)"

definition py_functions_of :: "nref list \<Rightarrow> string \<Rightarrow> FunctionInfo list" where
  "py_functions_of nodes source =
     map (\<lambda>h. py_extract_function h source)
       (filter (\<lambda>h. type (fst h) = ''function_definition'') nodes)"

definition py_extract_functions :: "node \<Rightarrow> string \<Rightarrow> FunctionInfo list" where
  "py_extract_functions root source = py_functions_of (walk_tree root) source"

definition py_class_bases :: "node \<Rightarrow> string \<Rightarrow> string list" where
  "py_class_bases node source =
     concat (map (\<lambda>c.
        if type c = ''argument_list'' then
          map (\<lambda>arg. get_node_text arg source)
            (filter (\<lambda>arg. type arg = ''identifier'' \<or> type arg = ''attribute'') (children c))
        else []) (children node))"

definition py_extract_class :: "node \<Rightarrow> string \<Rightarrow> ClassInfo" where
  "py_extract_class node source =
     (let name = (case child_by_field_name node ''name'' of
                    Some name_node \<Rightarrow> get_node_text name_node source
                  | None \<Rightarrow> ''<unknown>'');
          bases = py_class_bases node source
      in \<lparr>ClassInfo.name = name,
          line_start = start_row node + 1,
          line_end = end_row node + 1,
          bases = (if bases \<noteq> [] then Some (join '', '' bases) else None),
          docstring = py_extract_docstring (child_by_field_name node ''body'') source\<rparr>)"

definition py_classes_of :: "nref list \<Rightarrow> string \<Rightarrow> ClassInfo list" where
  "py_classes_of nodes source =
     map (\<lambda>h. py_extract_class (fst h) source)
       (filter (\<lambda>h. type (fst h) = ''class_definition'') nodes)"

definition py_extract_classes :: "node \<Rightarrow> string \<Rightarrow> ClassInfo list" where
  "py_extract_classes root source = py_classes_of (walk_tree root) source"

definition py_extract_import :: "node \<Rightarrow> string \<Rightarrow> ImportInfo list" where
  "py_extract_import node source =
     concat (map (\<lambda>c.
        if type c = ''dotted_name'' then
          [\<lparr>module = get_node_text c source, line = start_row node + 1, import_alias = None\<rparr>]
        else if type c = ''aliased_import'' then
          (case child_by_field_name c ''name'' of
             Some name_node \<Rightarrow>
               [\<lparr>module = get_node_text name_node source,
                 line = start_row node + 1,
                 import_alias = map_option (\<lambda>a. get_node_text a source)
                                  (child_by_field_name c ''alias'')\<rparr>]
           | None \<Rightarrow> [])
        else []) (children node))"

text \<open>
  \<open>_extract_from_import\<close>: \<open>child != module_node\<close> compares nodes, not their text, so
  the loop runs over the children with their positions.
\<close>

definition py_extract_from_import :: "node \<Rightarrow> string \<Rightarrow> ImportInfo list" where
  "py_extract_from_import node source =
     (let module_node = field_index node ''module_name'';
          module = (case child_by_field_name node ''module_name'' of
                      Some m \<Rightarrow> get_node_text m source
                    | None \<Rightarrow> [])
      in concat (map (\<lambda>(i, c).
           if type c = ''dotted_name'' \<and> Some i \<noteq> module_node then
             (let item = get_node_text c source in
              [\<lparr>module = (if module \<noteq> [] then module @ ''.'' @ item else item),
                line = start_row node + 1,
                import_alias = None\<rparr>])
           else if type c = ''aliased_import'' then
             (case child_by_field_name c ''name'' of
                Some name_node \<Rightarrow>
                  (let item = get_node_text name_node source in
                   [\<lparr>module = (if module \<noteq> [] then module @ ''.'' @ item else item),
                     line = start_row node + 1,
                     import_alias = map_option (\<lambda>a. get_node_text a source)
                                      (child_by_field_name c ''alias'')\<rparr>])
              | None \<Rightarrow> [])
           else []) (enumerate 0 (children node))))"

definition py_imports_of :: "nref list \<Rightarrow> string \<Rightarrow> ImportInfo list" where
  "py_imports_of nodes source =
     concat (map (\<lambda>h.
        if type (fst h) = ''import_statement'' then py_extract_import (fst h) source
        else if type (fst h) = ''import_from_statement'' then py_extract_from_import (fst h) source
        else []) nodes)"

definition py_extract_imports :: "node \<Rightarrow> string \<Rightarrow> ImportInfo list" where
  "py_extract_imports root source = py_imports_of (walk_tree root) source"

text \<open>
  \<open>_extract_assignment\<close>. The scope is decided first: \<open>None\<close> stands for the two
  \<open>return\<close> statements that leave without a variable.
\<close>

definition py_extract_assignment :: "nref \<Rightarrow> string \<Rightarrow> VariableInfo list" where
  "py_extract_assignment h source =
     (case parent h of
        None \<Rightarrow> []
      | Some par \<Rightarrow>
          if type (fst par) = ''expression_statement'' then
            (case parent par of
               None \<Rightarrow> []
             | Some grandparent \<Rightarrow>
                 (case (if type (fst grandparent) = ''module'' then Some (''global'', None)
                        else if type (fst grandparent) = ''block'' then
                          (case py_get_parent_class h source of
                             Some cn \<Rightarrow> if cn \<noteq> [] then Some (''class'', Some cn) else None
                           | None \<Rightarrow> None)
                        else None) of
                    None \<Rightarrow> []
                  | Some (sc, cls) \<Rightarrow>
                      (case child_by_field_name (fst h) ''left'' of
                         Some left \<Rightarrow>
                           if type left = ''identifier'' then
                             [\<lparr>VariableInfo.name = get_node_text left source,
                               line = start_row (fst h) + 1,
                               scope = sc,
                               class_name = cls,
                               type_hint = None\<rparr>]
                           else []
                       | None \<Rightarrow> [])))
          else [])"

definition py_extract_annotated_assignment :: "nref \<Rightarrow> string \<Rightarrow> VariableInfo list" where
  "py_extract_annotated_assignment h source =
     (case parent h of
        None \<Rightarrow> []
      | Some par \<Rightarrow>
          if type (fst par) = ''module'' \<or> type (fst par) = ''block'' then
            (case (if type (fst par) = ''module'' then Some (''global'', None)
                   else
                     (case py_get_parent_class h source of
                        Some cn \<Rightarrow> if cn \<noteq> [] then Some (''class'', Some cn) else None
                      | None \<Rightarrow> None)) of
               None \<Rightarrow> []
             | Some (sc, cls) \<Rightarrow>
                 (case child_by_field_name (fst h) ''name'' of
                    Some name_node \<Rightarrow>
                      if type name_node = ''identifier'' then
                        [\<lparr>VariableInfo.name = get_node_text name_node source,
                          line = start_row (fst h) + 1,
                          scope = sc,
                          class_name = cls,
                          type_hint = map_option (\<lambda>t. get_node_text t source)
                                        (child_by_field_name (fst h) ''type'')\<rparr>]
                      else []
                  | None \<Rightarrow> []))
          else [])"

definition py_variables_of :: "nref list \<Rightarrow> string \<Rightarrow> VariableInfo list" where
  "py_variables_of nodes source =
     concat (map (\<lambda>h.
        if type (fst h) = ''assignment'' then py_extract_assignment h source
        else if type (fst h) = ''annotated_assignment''
        then py_extract_annotated_assignment h source
        else []) nodes)"

definition py_extract_variables :: "node \<Rightarrow> string \<Rightarrow> VariableInfo list" where
  "py_extract_variables root source = py_variables_of (walk_tree root) source"

section \<open>Call attribution\<close>

text \<open>
  The loop \<open>for start, end, name in func_ranges\<close> with its \<open>break\<close>, the same in the
  three extractors.
\<close>

fun find_caller :: "(nat \<times> nat \<times> string) list \<Rightarrow> nat \<Rightarrow> string option" where
  "find_caller [] call_pos = None"
| "find_caller ((start, fin, nm) # rest) call_pos =
     (if start \<le> call_pos \<and> call_pos \<le> fin then Some nm
      else find_caller rest call_pos)"

definition py_func_ranges :: "nref list \<Rightarrow> string \<Rightarrow> (nat \<times> nat \<times> string) list" where
  "py_func_ranges nodes source =
     concat (map (\<lambda>h.
        if type (fst h) = ''function_definition'' then
          (case child_by_field_name (fst h) ''name'' of
             Some name_node \<Rightarrow>
               [(start_byte (fst h), end_byte (fst h), get_node_text name_node source)]
           | None \<Rightarrow> [])
        else []) nodes)"

text \<open>The body of the second loop for one \<open>call\<close> node; \<open>continue\<close> yields nothing.\<close>

definition py_call_info :: "(nat \<times> nat \<times> string) list \<Rightarrow> node \<Rightarrow> string \<Rightarrow> CallInfo list" where
  "py_call_info func_ranges node source =
     (case child_by_field_name node ''function'' of
        None \<Rightarrow> []
      | Some func_node \<Rightarrow>
          (case (if type func_node = ''identifier'' then Some (get_node_text func_node source)
                 else if type func_node = ''attribute'' then
                   map_option (\<lambda>a. get_node_text a source)
                     (child_by_field_name func_node ''attribute'')
                 else None) of
             None \<Rightarrow> []
           | Some callee \<Rightarrow>
               [\<lparr>callee_name = callee,
                 line = start_row node + 1,
                 caller_function = find_caller func_ranges (start_byte node)\<rparr>]))"

definition py_calls_of ::
  "(nat \<times> nat \<times> string) list \<Rightarrow> nref list \<Rightarrow> string \<Rightarrow> CallInfo list" where
  "py_calls_of func_ranges nodes source =
     concat (map (\<lambda>h.
        if type (fst h) = ''call'' then py_call_info func_ranges (fst h) source else []) nodes)"

definition py_extract_calls :: "node \<Rightarrow> string \<Rightarrow> CallInfo list" where
  "py_extract_calls root source =
     py_calls_of (py_func_ranges (walk_tree root) source) (walk_tree root) source"

section \<open>The C extractor\<close>

lemma size_field_child: "child_by_field_name n f = Some c \<Longrightarrow> size c < size n"
proof -
  assume "child_by_field_name n f = Some c"
  then obtain e where "find (\<lambda>e. fst e = Some f) (entries n) = Some e" and "snd e = c"
    by (auto simp: child_by_field_name_def)
  then have "c \<in> set (children n)"
    by (force simp: children_def find_Some_iff)
  then show ?thesis by (rule size_child)
qed

lemma size_found_child: "find P (children n) = Some c \<Longrightarrow> size c < size n"
  by (rule size_child) (auto simp: find_Some_iff)

text \<open>
  \<open>_extract_declarator_info\<close>: the name (\<open>None\<close> when there is none) and the parameter
  text. A branch whose inner \<open>if\<close> or \<open>for\<close> finds nothing falls through to the last
  \<open>return None, "()"\<close>.
\<close>

function c_extract_declarator_info :: "node \<Rightarrow> string \<Rightarrow> string option \<times> string" where
  "c_extract_declarator_info node source =
     (if type node = ''function_declarator'' then
        (let params = (case child_by_field_name node ''parameters'' of
                         Some params_node \<Rightarrow> get_node_text params_node source
                       | None \<Rightarrow> ''()'')
         in case child_by_field_name node ''declarator'' of
              Some decl \<Rightarrow>
                if type decl = ''identifier'' then (Some (get_node_text decl source), params)
                else (fst (c_extract_declarator_info decl source), params)
            | None \<Rightarrow> (None, ''()''))
      else if type node = ''pointer_declarator'' then
        (case child_by_field_name node ''declarator'' of
           Some decl \<Rightarrow> c_extract_declarator_info decl source
         | None \<Rightarrow> (None, ''()''))
      else if type node = ''identifier'' then (Some (get_node_text node source), ''()'')
      else if type node = ''parenthesized_declarator'' then
        (case find (\<lambda>c. type c \<noteq> ''('' \<and> type c \<noteq> '')'') (children node) of
           Some c \<Rightarrow> c_extract_declarator_info c source
         | None \<Rightarrow> (None, ''()''))
      else (None, ''()''))"
  by pat_completeness auto

termination c_extract_declarator_info
  by (relation "measure (\<lambda>(n, s). size n)") (auto simp: size_field_child size_found_child)

declare c_extract_declarator_info.simps [simp del]

definition c_extract_function :: "node \<Rightarrow> string \<Rightarrow> FunctionInfo option" where
  "c_extract_function node source =
     (case child_by_field_name node ''declarator'' of
        None \<Rightarrow> None
      | Some declarator \<Rightarrow>
          (case c_extract_declarator_info declarator source of
             (None, params) \<Rightarrow> None
           | (Some nm, params) \<Rightarrow>
               if nm = [] then None
               else
                 (let return_type = (case child_by_field_name node ''type'' of
                                       Some type_node \<Rightarrow> get_node_text type_node source
                                     | None \<Rightarrow> ''void'')
                  in Some \<lparr>FunctionInfo.name = nm,
                            line_start = start_row node + 1,
                            line_end = end_row node + 1,
                            signature = return_type @ '' '' @ nm @ params,
                            class_name = None,
                            docstring = None\<rparr>)))"

definition c_functions_of :: "nref list \<Rightarrow> string \<Rightarrow> FunctionInfo list" where
  "c_functions_of nodes source =
     concat (map (\<lambda>h.
        if type (fst h) = ''function_definition'' then
          (case c_extract_function (fst h) source of Some info \<Rightarrow> [info] | None \<Rightarrow> [])
        else []) nodes)"

definition c_extract_functions :: "node \<Rightarrow> string \<Rightarrow> FunctionInfo list" where
  "c_extract_functions root source = c_functions_of (walk_tree root) source"

definition c_extract_struct :: "node \<Rightarrow> string \<Rightarrow> ClassInfo option" where
  "c_extract_struct node source =
     (case child_by_field_name node ''name'' of
        None \<Rightarrow> None
      | Some name_node \<Rightarrow>
          Some \<lparr>ClassInfo.name = get_node_text name_node source,
                 line_start = start_row node + 1,
                 line_end = (if child_by_field_name node ''body'' \<noteq> None
                             then end_row node + 1 else start_row node + 1),
                 bases = None,
                 docstring = None\<rparr>)"

definition c_classes_of :: "nref list \<Rightarrow> string \<Rightarrow> ClassInfo list" where
  "c_classes_of nodes source =
     concat (map (\<lambda>h.
        if type (fst h) = ''struct_specifier'' then
          (case c_extract_struct (fst h) source of Some info \<Rightarrow> [info] | None \<Rightarrow> [])
        else []) nodes)"

definition c_extract_classes :: "node \<Rightarrow> string \<Rightarrow> ClassInfo list" where
  "c_extract_classes root source = c_classes_of (walk_tree root) source"

text \<open>The include loop, the same text in the C and the C++ extractor.\<close>

definition c_imports_of :: "nref list \<Rightarrow> string \<Rightarrow> ImportInfo list" where
  "c_imports_of nodes source =
     concat (map (\<lambda>h.
        if type (fst h) = ''preproc_include'' then
          (case child_by_field_name (fst h) ''path'' of
             Some path_node \<Rightarrow>
               [\<lparr>module = strip_chars (get_node_text path_node source) [dquote, CHR ''<'', CHR ''>''],
                 line = start_row (fst h) + 1,
                 import_alias = None\<rparr>]
           | None \<Rightarrow> [])
        else []) nodes)"

definition c_extract_imports :: "node \<Rightarrow> string \<Rightarrow> ImportInfo list" where
  "c_extract_imports root source = c_imports_of (walk_tree root) source"

function c_get_var_name :: "node \<Rightarrow> string \<Rightarrow> string option" where
  "c_get_var_name node source =
     (if type node = ''identifier'' then Some (get_node_text node source)
      else if type node = ''init_declarator'' \<or> type node = ''pointer_declarator''
              \<or> type node = ''array_declarator'' then
        (case child_by_field_name node ''declarator'' of
           Some decl \<Rightarrow> c_get_var_name decl source
         | None \<Rightarrow>
             (case find (\<lambda>c. type c = ''identifier'') (children node) of
                Some c \<Rightarrow> Some (get_node_text c source)
              | None \<Rightarrow> None))
      else None)"
  by pat_completeness auto

termination c_get_var_name
  by (relation "measure (\<lambda>(n, s). size n)") (auto simp: size_field_child)

declare c_get_var_name.simps [simp del]

definition c_extract_declaration :: "node \<Rightarrow> string \<Rightarrow> VariableInfo list" where
  "c_extract_declaration node source =
     (let type_str = map_option (\<lambda>t. get_node_text t source) (child_by_field_name node ''type'')
      in case child_by_field_name node ''declarator'' of
           None \<Rightarrow> []
         | Some declarator \<Rightarrow>
             (case c_get_var_name declarator source of
                None \<Rightarrow> []
              | Some nm \<Rightarrow>
                  if nm = [] then []
                  else [\<lparr>VariableInfo.name = nm,
                          line = start_row node + 1,
                          scope = ''global'',
                          class_name = None,
                          type_hint = type_str\<rparr>]))"

definition c_variables_of :: "nref list \<Rightarrow> string \<Rightarrow> VariableInfo list" where
  "c_variables_of nodes source =
     concat (map (\<lambda>h.
        if type (fst h) = ''declaration'' then
          (case parent h of
             Some par \<Rightarrow>
               if type (fst par) = ''translation_unit'' then c_extract_declaration (fst h) source
               else []
           | None \<Rightarrow> [])
        else []) nodes)"

definition c_extract_variables :: "node \<Rightarrow> string \<Rightarrow> VariableInfo list" where
  "c_extract_variables root source = c_variables_of (walk_tree root) source"

definition c_func_ranges :: "nref list \<Rightarrow> string \<Rightarrow> (nat \<times> nat \<times> string) list" where
  "c_func_ranges nodes source =
     concat (map (\<lambda>h.
        if type (fst h) = ''function_definition'' then
          (case child_by_field_name (fst h) ''declarator'' of
             Some declarator \<Rightarrow>
               (case fst (c_extract_declarator_info declarator source) of
                  Some nm \<Rightarrow>
                    if nm \<noteq> [] then [(start_byte (fst h), end_byte (fst h), nm)] else []
                | None \<Rightarrow> [])
           | None \<Rightarrow> [])
        else []) nodes)"

definition c_call_info :: "(nat \<times> nat \<times> string) list \<Rightarrow> node \<Rightarrow> string \<Rightarrow> CallInfo list" where
  "c_call_info func_ranges node source =
     (case child_by_field_name node ''function'' of
        None \<Rightarrow> []
      | Some func_node \<Rightarrow>
          if type func_node = ''identifier'' then
            [\<lparr>callee_name = get_node_text func_node source,
              line = start_row node + 1,
              caller_function = find_caller func_ranges (start_byte node)\<rparr>]
          else [])"

definition c_calls_of ::
  "(nat \<times> nat \<times> string) list \<Rightarrow> nref list \<Rightarrow> string \<Rightarrow> CallInfo list" where
  "c_calls_of func_ranges nodes source =
     concat (map (\<lambda>h.
        if type (fst h) = ''call_expression'' then c_call_info func_ranges (fst h) source
        else []) nodes)"

definition c_extract_calls :: "node \<Rightarrow> string \<Rightarrow> CallInfo list" where
  "c_extract_calls root source =
     c_calls_of (c_func_ranges (walk_tree root) source) (walk_tree root) source"

section \<open>The C++ extractor\<close>

function cpp_extract_declarator_info :: "node \<Rightarrow> string \<Rightarrow> string option \<times> string" where
  "cpp_extract_declarator_info node source =
     (if type node = ''function_declarator'' then
        (let params = (case child_by_field_name node ''parameters'' of
                         Some params_node \<Rightarrow> get_node_text params_node source
                       | None \<Rightarrow> ''()'')
         in case child_by_field_name node ''declarator'' of
              Some decl \<Rightarrow>
                if type decl = ''identifier'' then (Some (get_node_text decl source), params)
                else if type decl = ''qualified_identifier''
                then (Some (get_node_text decl source), params)
                else if type decl = ''field_identifier''
                then (Some (get_node_text decl source), params)
                else (fst (cpp_extract_declarator_info decl source), params)
            | None \<Rightarrow> (None, ''()''))
      else if type node = ''pointer_declarator'' then
        (case child_by_field_name node ''declarator'' of
           Some decl \<Rightarrow> cpp_extract_declarator_info decl source
         | None \<Rightarrow> (None, ''()''))
      else if type node = ''reference_declarator'' then
        (case find (\<lambda>c. type c \<noteq> ''&'' \<and> type c \<noteq> ''&&'') (children node) of
           Some c \<Rightarrow> cpp_extract_declarator_info c source
         | None \<Rightarrow> (None, ''()''))
      else if type node = ''identifier'' \<or> type node = ''qualified_identifier''
              \<or> type node = ''field_identifier''
      then (Some (get_node_text node source), ''()'')
      else if type node = ''parenthesized_declarator'' then
        (case find (\<lambda>c. type c \<noteq> ''('' \<and> type c \<noteq> '')'') (children node) of
           Some c \<Rightarrow> cpp_extract_declarator_info c source
         | None \<Rightarrow> (None, ''()''))
      else (None, ''()''))"
  by pat_completeness auto

termination cpp_extract_declarator_info
  by (relation "measure (\<lambda>(n, s). size n)") (auto simp: size_field_child size_found_child)

declare cpp_extract_declarator_info.simps [simp del]

text \<open>
  The split of \<open>Class::method\<close>: the class and the plain name, or no class and the name
  as it is when it holds no \<open>::\<close>.
\<close>

definition cpp_split_qualified :: "string \<Rightarrow> string option \<times> string" where
  "cpp_split_qualified nm =
     (if contains nm ''::'' then
        (case rsplit1 nm ''::'' of
           [a, b] \<Rightarrow> (Some a, b)
         | _ \<Rightarrow> (None, nm))
      else (None, nm))"

definition cpp_extract_function :: "node \<Rightarrow> string \<Rightarrow> FunctionInfo option" where
  "cpp_extract_function node source =
     (case child_by_field_name node ''declarator'' of
        None \<Rightarrow> None
      | Some declarator \<Rightarrow>
          (case cpp_extract_declarator_info declarator source of
             (None, params) \<Rightarrow> None
           | (Some nm, params) \<Rightarrow>
               if nm = [] then None
               else
                 (let return_type = (case child_by_field_name node ''type'' of
                                       Some type_node \<Rightarrow> get_node_text type_node source
                                     | None \<Rightarrow> ''void'');
                      (cls, short) = cpp_split_qualified nm
                  in Some \<lparr>FunctionInfo.name = short,
                            line_start = start_row node + 1,
                            line_end = end_row node + 1,
                            signature = return_type @ '' '' @ short @ params,
                            class_name = cls,
                            docstring = None\<rparr>)))"

definition cpp_functions_of :: "nref list \<Rightarrow> string \<Rightarrow> FunctionInfo list" where
  "cpp_functions_of nodes source =
     concat (map (\<lambda>h.
        if type (fst h) = ''function_definition'' then
          (case cpp_extract_function (fst h) source of Some info \<Rightarrow> [info] | None \<Rightarrow> [])
        else []) nodes)"

definition cpp_extract_functions :: "node \<Rightarrow> string \<Rightarrow> FunctionInfo list" where
  "cpp_extract_functions root source = cpp_functions_of (walk_tree root) source"

definition cpp_class_bases :: "node \<Rightarrow> string \<Rightarrow> string list" where
  "cpp_class_bases node source =
     concat (map (\<lambda>c.
        if type c = ''base_class_clause'' then
          map (\<lambda>b. get_node_text b source)
            (filter (\<lambda>b. type b = ''type_identifier'' \<or> type b = ''qualified_identifier'')
               (children c))
        else []) (children node))"

definition cpp_extract_class :: "node \<Rightarrow> string \<Rightarrow> ClassInfo option" where
  "cpp_extract_class node source =
     (case child_by_field_name node ''name'' of
        None \<Rightarrow> None
      | Some name_node \<Rightarrow>
          (let bases = cpp_class_bases node source
           in Some \<lparr>ClassInfo.name = get_node_text name_node source,
                     line_start = start_row node + 1,
                     line_end = (if child_by_field_name node ''body'' \<noteq> None
                                 then end_row node + 1 else start_row node + 1),
                     bases = (if bases \<noteq> [] then Some (join '', '' bases) else None),
                     docstring = None\<rparr>))"

definition cpp_classes_of :: "nref list \<Rightarrow> string \<Rightarrow> ClassInfo list" where
  "cpp_classes_of nodes source =
     concat (map (\<lambda>h.
        if type (fst h) = ''class_specifier'' \<or> type (fst h) = ''struct_specifier'' then
          (case cpp_extract_class (fst h) source of Some info \<Rightarrow> [info] | None \<Rightarrow> [])
        else []) nodes)"

definition cpp_extract_classes :: "node \<Rightarrow> string \<Rightarrow> ClassInfo list" where
  "cpp_extract_classes root source = cpp_classes_of (walk_tree root) source"

definition cpp_imports_of :: "nref list \<Rightarrow> string \<Rightarrow> ImportInfo list" where
  "cpp_imports_of nodes source =
     concat (map (\<lambda>h.
        if type (fst h) = ''preproc_include'' then
          (case child_by_field_name (fst h) ''path'' of
             Some path_node \<Rightarrow>
               [\<lparr>module = strip_chars (get_node_text path_node source) [dquote, CHR ''<'', CHR ''>''],
                 line = start_row (fst h) + 1,
                 import_alias = None\<rparr>]
           | None \<Rightarrow> [])
        else []) nodes)"

definition cpp_extract_imports :: "node \<Rightarrow> string \<Rightarrow> ImportInfo list" where
  "cpp_extract_imports root source = cpp_imports_of (walk_tree root) source"

fun cpp_parent_class_loop :: "node list \<Rightarrow> string \<Rightarrow> string option" where
  "cpp_parent_class_loop [] source = None"
| "cpp_parent_class_loop (p # ps) source =
     (if type p = ''class_specifier'' \<or> type p = ''struct_specifier'' then
        (case child_by_field_name p ''name'' of
           Some name_node \<Rightarrow> Some (get_node_text name_node source)
         | None \<Rightarrow> cpp_parent_class_loop ps source)
      else cpp_parent_class_loop ps source)"

definition cpp_get_parent_class :: "nref \<Rightarrow> string \<Rightarrow> string option" where
  "cpp_get_parent_class h source = cpp_parent_class_loop (snd h) source"

function cpp_get_var_name :: "node \<Rightarrow> string \<Rightarrow> string option" where
  "cpp_get_var_name node source =
     (if type node = ''identifier'' \<or> type node = ''field_identifier''
      then Some (get_node_text node source)
      else if type node = ''init_declarator'' \<or> type node = ''pointer_declarator''
              \<or> type node = ''array_declarator'' then
        (case child_by_field_name node ''declarator'' of
           Some decl \<Rightarrow> cpp_get_var_name decl source
         | None \<Rightarrow>
             (case find (\<lambda>c. type c = ''identifier'' \<or> type c = ''field_identifier'')
                     (children node) of
                Some c \<Rightarrow> Some (get_node_text c source)
              | None \<Rightarrow> None))
      else None)"
  by pat_completeness auto

termination cpp_get_var_name
  by (relation "measure (\<lambda>(n, s). size n)") (auto simp: size_field_child)

declare cpp_get_var_name.simps [simp del]

definition cpp_extract_declaration ::
  "node \<Rightarrow> string \<Rightarrow> string \<Rightarrow> string option \<Rightarrow> VariableInfo list" where
  "cpp_extract_declaration node source sc cls =
     (let type_str = map_option (\<lambda>t. get_node_text t source) (child_by_field_name node ''type'')
      in case child_by_field_name node ''declarator'' of
           None \<Rightarrow> []
         | Some declarator \<Rightarrow>
             (case cpp_get_var_name declarator source of
                None \<Rightarrow> []
              | Some nm \<Rightarrow>
                  if nm = [] then []
                  else [\<lparr>VariableInfo.name = nm,
                          line = start_row node + 1,
                          scope = sc,
                          class_name = cls,
                          type_hint = type_str\<rparr>]))"

definition cpp_extract_field :: "node \<Rightarrow> string \<Rightarrow> string \<Rightarrow> VariableInfo list" where
  "cpp_extract_field node source cls =
     (let type_str = map_option (\<lambda>t. get_node_text t source) (child_by_field_name node ''type'')
      in case child_by_field_name node ''declarator'' of
           None \<Rightarrow> []
         | Some declarator \<Rightarrow>
             (case cpp_get_var_name declarator source of
                None \<Rightarrow> []
              | Some nm \<Rightarrow>
                  if nm = [] then []
                  else [\<lparr>VariableInfo.name = nm,
                          line = start_row node + 1,
                          scope = ''class'',
                          class_name = Some cls,
                          type_hint = type_str\<rparr>]))"

definition cpp_variables_of :: "nref list \<Rightarrow> string \<Rightarrow> VariableInfo list" where
  "cpp_variables_of nodes source =
     concat (map (\<lambda>h.
        if type (fst h) = ''declaration'' then
          (case parent h of
             Some par \<Rightarrow>
               if type (fst par) = ''translation_unit''
               then cpp_extract_declaration (fst h) source ''global'' None
               else []
           | None \<Rightarrow> [])
        else if type (fst h) = ''field_declaration'' then
          (case cpp_get_parent_class h source of
             Some cls \<Rightarrow> if cls \<noteq> [] then cpp_extract_field (fst h) source cls else []
           | None \<Rightarrow> [])
        else []) nodes)"

definition cpp_extract_variables :: "node \<Rightarrow> string \<Rightarrow> VariableInfo list" where
  "cpp_extract_variables root source = cpp_variables_of (walk_tree root) source"

definition cpp_func_ranges :: "nref list \<Rightarrow> string \<Rightarrow> (nat \<times> nat \<times> string) list" where
  "cpp_func_ranges nodes source =
     concat (map (\<lambda>h.
        if type (fst h) = ''function_definition'' then
          (case child_by_field_name (fst h) ''declarator'' of
             Some declarator \<Rightarrow>
               (case fst (cpp_extract_declarator_info declarator source) of
                  Some nm \<Rightarrow>
                    if nm \<noteq> [] then
                      [(start_byte (fst h), end_byte (fst h), snd (cpp_split_qualified nm))]
                    else []
                | None \<Rightarrow> [])
           | None \<Rightarrow> [])
        else []) nodes)"

definition cpp_call_info :: "(nat \<times> nat \<times> string) list \<Rightarrow> node \<Rightarrow> string \<Rightarrow> CallInfo list" where
  "cpp_call_info func_ranges node source =
     (case child_by_field_name node ''function'' of
        None \<Rightarrow> []
      | Some func_node \<Rightarrow>
          (case (if type func_node = ''identifier'' then Some (get_node_text func_node source)
                 else if type func_node = ''qualified_identifier''
                 then Some (get_node_text func_node source)
                 else if type func_node = ''field_expression'' then
                   map_option (\<lambda>f. get_node_text f source)
                     (child_by_field_name func_node ''field'')
                 else None) of
             None \<Rightarrow> []
           | Some callee \<Rightarrow>
               if callee = [] then []
               else [\<lparr>callee_name = callee,
                       line = start_row node + 1,
                       caller_function = find_caller func_ranges (start_byte node)\<rparr>]))"

definition cpp_calls_of ::
  "(nat \<times> nat \<times> string) list \<Rightarrow> nref list \<Rightarrow> string \<Rightarrow> CallInfo list" where
  "cpp_calls_of func_ranges nodes source =
     concat (map (\<lambda>h.
        if type (fst h) = ''call_expression'' then cpp_call_info func_ranges (fst h) source
        else []) nodes)"

definition cpp_extract_calls :: "node \<Rightarrow> string \<Rightarrow> CallInfo list" where
  "cpp_extract_calls root source =
     cpp_calls_of (cpp_func_ranges (walk_tree root) source) (walk_tree root) source"

section \<open>The three extractors behind one interface\<close>

text \<open>
  \<open>EXTRACTORS\<close> maps each language to its extractor class; every class implements the
  same five operations.
\<close>

datatype language = Python | C | Cpp

definition extract_functions :: "language \<Rightarrow> node \<Rightarrow> string \<Rightarrow> FunctionInfo list" where
  "extract_functions lang =
     (case lang of Python \<Rightarrow> py_extract_functions | C \<Rightarrow> c_extract_functions
      | Cpp \<Rightarrow> cpp_extract_functions)"

definition extract_classes :: "language \<Rightarrow> node \<Rightarrow> string \<Rightarrow> ClassInfo list" where
  "extract_classes lang =
     (case lang of Python \<Rightarrow> py_extract_classes | C \<Rightarrow> c_extract_classes
      | Cpp \<Rightarrow> cpp_extract_classes)"

definition extract_imports :: "language \<Rightarrow> node \<Rightarrow> string \<Rightarrow> ImportInfo list" where
  "extract_imports lang =
     (case lang of Python \<Rightarrow> py_extract_imports | C \<Rightarrow> c_extract_imports
      | Cpp \<Rightarrow> cpp_extract_imports)"

definition extract_variables :: "language \<Rightarrow> node \<Rightarrow> string \<Rightarrow> VariableInfo list" where
  "extract_variables lang =
     (case lang of Python \<Rightarrow> py_extract_variables | C \<Rightarrow> c_extract_variables
      | Cpp \<Rightarrow> cpp_extract_variables)"

definition extract_calls :: "language \<Rightarrow> node \<Rightarrow> string \<Rightarrow> CallInfo list" where
  "extract_calls lang =
     (case lang of Python \<Rightarrow> py_extract_calls | C \<Rightarrow> c_extract_calls
      | Cpp \<Rightarrow> cpp_extract_calls)"

text \<open>The parts of \<open>extract_calls\<close>, by language.\<close>

definition func_ranges :: "language \<Rightarrow> nref list \<Rightarrow> string \<Rightarrow> (nat \<times> nat \<times> string) list" where
  "func_ranges lang =
     (case lang of Python \<Rightarrow> py_func_ranges | C \<Rightarrow> c_func_ranges | Cpp \<Rightarrow> cpp_func_ranges)"

definition call_info ::
  "language \<Rightarrow> (nat \<times> nat \<times> string) list \<Rightarrow> node \<Rightarrow> string \<Rightarrow> CallInfo list" where
  "call_info lang =
     (case lang of Python \<Rightarrow> py_call_info | C \<Rightarrow> c_call_info | Cpp \<Rightarrow> cpp_call_info)"

definition call_type :: "language \<Rightarrow> string" where
  "call_type lang = (case lang of Python \<Rightarrow> ''call'' | C \<Rightarrow> ''call_expression''
                     | Cpp \<Rightarrow> ''call_expression'')"

text \<open>The loop bodies of the five operations over a sequence of nodes, by language.\<close>

definition functions_of :: "language \<Rightarrow> nref list \<Rightarrow> string \<Rightarrow> FunctionInfo list" where
  "functions_of lang =
     (case lang of Python \<Rightarrow> py_functions_of | C \<Rightarrow> c_functions_of | Cpp \<Rightarrow> cpp_functions_of)"

definition classes_of :: "language \<Rightarrow> nref list \<Rightarrow> string \<Rightarrow> ClassInfo list" where
  "classes_of lang =
     (case lang of Python \<Rightarrow> py_classes_of | C \<Rightarrow> c_classes_of | Cpp \<Rightarrow> cpp_classes_of)"

definition imports_of :: "language \<Rightarrow> nref list \<Rightarrow> string \<Rightarrow> ImportInfo list" where
  "imports_of lang =
     (case lang of Python \<Rightarrow> py_imports_of | C \<Rightarrow> c_imports_of | Cpp \<Rightarrow> cpp_imports_of)"

definition variables_of :: "language \<Rightarrow> nref list \<Rightarrow> string \<Rightarrow> VariableInfo list" where
  "variables_of lang =
     (case lang of Python \<Rightarrow> py_variables_of | C \<Rightarrow> c_variables_of | Cpp \<Rightarrow> cpp_variables_of)"

definition calls_of ::
  "language \<Rightarrow> (nat \<times> nat \<times> string) list \<Rightarrow> nref list \<Rightarrow> string \<Rightarrow> CallInfo list" where
  "calls_of lang =
     (case lang of Python \<Rightarrow> py_calls_of | C \<Rightarrow> c_calls_of | Cpp \<Rightarrow> cpp_calls_of)"

section \<open>The operations as runs on a store of cursors\<close>

text \<open>
  A tree cursor is the one mutable object the extractors use: \<open>node.walk()\<close> makes a
  new cursor and every move changes that cursor in place. The store holds the cursor
  objects made so far, in the order in which they were made, and a cursor is known by
  its position in the store. Nodes and the source bytes are immutable values; they are
  not in the store.
\<close>

type_synonym store = "cursor list"

definition new_cursor :: "node \<Rightarrow> store \<Rightarrow> nat \<times> store" where
  "new_cursor n s = (length s, s @ [node_walk n])"

definition store_measure :: "nat \<times> bool \<times> store \<Rightarrow> nat" where
  "store_measure x =
     (case x of (a, visited, s) \<Rightarrow> if a < length s then walk_measure (s ! a, visited) else 0)"

text \<open>
  The loop of \<open>walk_tree\<close> on the cursor object at address \<open>a\<close>: the nodes it yields and
  the store as the loop leaves it. A move that succeeds overwrites the object; one that
  fails leaves it as it is. (An address outside the store names no object; the loop is
  only ever run on the cursor it has just made.)
\<close>

function walk_loop_at :: "nat \<Rightarrow> bool \<Rightarrow> store \<Rightarrow> nref list \<times> store" where
  "walk_loop_at a visited s =
     (if length s \<le> a then ([], s)
      else
        (let out = (if visited then [] else [cursor_node (s ! a)]) in
         case (if visited then None else goto_first_child (s ! a)) of
           Some c1 \<Rightarrow> (let (r, sf) = walk_loop_at a False (s[a := c1]) in (out @ r, sf))
         | None \<Rightarrow>
             (case goto_next_sibling (s ! a) of
                Some c2 \<Rightarrow> (let (r, sf) = walk_loop_at a False (s[a := c2]) in (out @ r, sf))
              | None \<Rightarrow>
                  (case goto_parent (s ! a) of
                     Some c3 \<Rightarrow>
                       (let (r, sf) = walk_loop_at a True (s[a := c3]) in (out @ r, sf))
                   | None \<Rightarrow> (out, s)))))"
  by pat_completeness auto

termination walk_loop_at
proof (relation "measure store_measure")
  show "wf (measure store_measure)" by simp
next
  fix a :: nat and visited :: bool and s :: store and c1
  assume "\<not> length s \<le> a" and "(if visited then None else goto_first_child (s ! a)) = Some c1"
  then show "((a, False, s[a := c1]), (a, visited, s)) \<in> measure store_measure"
    by (auto simp: store_measure_def first_child_measure split: if_splits)
next
  fix a :: nat and visited :: bool and s :: store and c2
  assume "\<not> length s \<le> a" and "(if visited then None else goto_first_child (s ! a)) = None"
    and "goto_next_sibling (s ! a) = Some c2"
  then show "((a, False, s[a := c2]), (a, visited, s)) \<in> measure store_measure"
    by (auto simp: store_measure_def next_sibling_measure split: if_splits)
next
  fix a :: nat and visited :: bool and s :: store and c3
  assume "\<not> length s \<le> a" and "goto_next_sibling (s ! a) = None"
    and "goto_parent (s ! a) = Some c3"
  then show "((a, True, s[a := c3]), (a, visited, s)) \<in> measure store_measure"
    by (auto simp: store_measure_def parent_measure)
qed

declare walk_loop_at.simps [simp del]

text \<open>\<open>walk_tree(node)\<close>, run to its end: it makes its own cursor and loops on it.\<close>

definition run_walk_tree :: "node \<Rightarrow> store \<Rightarrow> nref list \<times> store" where
  "run_walk_tree n s = (let (a, s1) = new_cursor n s in walk_loop_at a False s1)"

text \<open>
  The five operations, each run to the end of the sequence it yields. Each loops over
  \<open>walk_tree(tree.root_node)\<close>; \<open>extract_calls\<close> does so twice, first for the table of
  function ranges and then for the calls.
\<close>

definition run_extract_functions ::
  "language \<Rightarrow> node \<Rightarrow> string \<Rightarrow> store \<Rightarrow> FunctionInfo list \<times> store" where
  "run_extract_functions lang root source s =
     (let (nodes, s1) = run_walk_tree root s in (functions_of lang nodes source, s1))"

definition run_extract_classes ::
  "language \<Rightarrow> node \<Rightarrow> string \<Rightarrow> store \<Rightarrow> ClassInfo list \<times> store" where
  "run_extract_classes lang root source s =
     (let (nodes, s1) = run_walk_tree root s in (classes_of lang nodes source, s1))"

definition run_extract_imports ::
  "language \<Rightarrow> node \<Rightarrow> string \<Rightarrow> store \<Rightarrow> ImportInfo list \<times> store" where
  "run_extract_imports lang root source s =
     (let (nodes, s1) = run_walk_tree root s in (imports_of lang nodes source, s1))"

definition run_extract_variables ::
  "language \<Rightarrow> node \<Rightarrow> string \<Rightarrow> store \<Rightarrow> VariableInfo list \<times> store" where
  "run_extract_variables lang root source s =
     (let (nodes, s1) = run_walk_tree root s in (variables_of lang nodes source, s1))"

definition run_extract_calls ::
  "language \<Rightarrow> node \<Rightarrow> string \<Rightarrow> store \<Rightarrow> CallInfo list \<times> store" where
  "run_extract_calls lang root source s =
     (let (defs, s1) = run_walk_tree root s;
          (nodes, s2) = run_walk_tree root s1
      in (calls_of lang (func_ranges lang defs source) nodes source, s2))"

section \<open>Notions used in the statements\<close>




text \<open>A variable whose scope and class name agree.\<close>

definition scope_consistent :: "VariableInfo \<Rightarrow> bool" where
  "scope_consistent v =
     ((VariableInfo.class_name v \<noteq> None) = (scope v = ''class'')
      \<and> (scope v = ''class'' \<or> scope v = ''global''))"

definition covers :: "nat \<times> nat \<times> string \<Rightarrow> nat \<Rightarrow> bool" where
  "covers r pos = (case r of (start, fin, nm) \<Rightarrow> start \<le> pos \<and> pos \<le> fin)"

text \<open>
  The rule in the specification's words: the caller is the name of the first range of the
  table, in table order, whose start and end enclose the position; it is \<open>None\<close> when
  no range of the table encloses the position.
\<close>

definition attributed :: "(nat \<times> nat \<times> string) list \<Rightarrow> nat \<Rightarrow> string option \<Rightarrow> bool" where
  "attributed table pos caller =
     (case caller of
        None \<Rightarrow> list_all (\<lambda>r. \<not> covers r pos) table
      | Some nm \<Rightarrow>
          list_ex (\<lambda>i. covers (table ! i) pos \<and> snd (snd (table ! i)) = nm
                        \<and> list_all (\<lambda>r. \<not> covers r pos) (take i table))
            [0..<length table])"

text \<open>
  The parser gives every node an end point that is not before its start point; the
  predicate says so for the rows of every node of a tree.
\<close>

function rows_ordered :: "node \<Rightarrow> bool" where
  "rows_ordered n = (start_row n \<le> end_row n \<and> list_all rows_ordered (children n))"
  by pat_completeness auto

termination rows_ordered
  by (relation "measure size") (auto simp: size_child)

declare rows_ordered.simps [simp del]

text \<open>The parameter text that a \<open>function_declarator\<close> node holds itself.\<close>

definition own_params :: "node \<Rightarrow> string \<Rightarrow> string" where
  "own_params d source =
     (case child_by_field_name d ''parameters'' of
        Some params_node \<Rightarrow> get_node_text params_node source
      | None \<Rightarrow> ''()'')"

text \<open>
  The node the resolver goes on to from a declarator node, and the chain of nodes this
  gives from the top: the first \<open>function_declarator\<close> of the chain is the outermost,
  the last one the innermost.
\<close>

definition c_decl_next :: "node \<Rightarrow> node option" where
  "c_decl_next n =
     (if type n = ''function_declarator'' \<or> type n = ''pointer_declarator''
      then child_by_field_name n ''declarator''
      else if type n = ''parenthesized_declarator''
      then find (\<lambda>c. type c \<noteq> ''('' \<and> type c \<noteq> '')'') (children n)
      else None)"

definition cpp_decl_next :: "node \<Rightarrow> node option" where
  "cpp_decl_next n =
     (if type n = ''function_declarator'' \<or> type n = ''pointer_declarator''
      then child_by_field_name n ''declarator''
      else if type n = ''reference_declarator''
      then find (\<lambda>c. type c \<noteq> ''&'' \<and> type c \<noteq> ''&&'') (children n)
      else if type n = ''parenthesized_declarator''
      then find (\<lambda>c. type c \<noteq> ''('' \<and> type c \<noteq> '')'') (children n)
      else None)"

lemma c_decl_next_size: "c_decl_next n = Some d \<Longrightarrow> size d < size n"
  by (auto simp: c_decl_next_def size_field_child size_found_child split: if_splits)

lemma cpp_decl_next_size: "cpp_decl_next n = Some d \<Longrightarrow> size d < size n"
  by (auto simp: cpp_decl_next_def size_field_child size_found_child split: if_splits)

function c_decl_chain :: "node \<Rightarrow> node list" where
  "c_decl_chain n = n # (case c_decl_next n of None \<Rightarrow> [] | Some d \<Rightarrow> c_decl_chain d)"
  by pat_completeness auto

termination c_decl_chain
  by (relation "measure size") (auto simp: c_decl_next_size)

function cpp_decl_chain :: "node \<Rightarrow> node list" where
  "cpp_decl_chain n = n # (case cpp_decl_next n of None \<Rightarrow> [] | Some d \<Rightarrow> cpp_decl_chain d)"
  by pat_completeness auto

termination cpp_decl_chain
  by (relation "measure size") (auto simp: cpp_decl_next_size)

declare c_decl_chain.simps [simp del] cpp_decl_chain.simps [simp del]

definition is_function_declarator :: "node \<Rightarrow> bool" where
  "is_function_declarator d = (type d = ''function_declarator'')"

section \<open>Example trees\<close>

text \<open>A token or other childless node on one row.\<close>

definition leaf :: "string \<Rightarrow> nat \<Rightarrow> nat \<Rightarrow> nat \<Rightarrow> node" where
  "leaf t s e r = Node t s e r r []"

definition newline :: char where
  "newline = CHR 0x0A"

text \<open>
  A Python module with an assignment inside a method body:
  \<^verbatim>\<open>
  class C:
      def m(self):
          x = 1
  \<close>
\<close>

definition method_local_src :: string where
  "method_local_src =
     ''class C:'' @ [newline] @ ''    def m(self):'' @ [newline] @ ''        x = 1'' @ [newline]"

definition method_local_tree :: node where
  "method_local_tree =
     Node ''module'' 0 40 0 3 [(None,
       Node ''class_definition'' 0 39 0 2
         [(None, leaf ''class'' 0 5 0),
          (Some ''name'', leaf ''identifier'' 6 7 0),
          (None, leaf '':'' 7 8 0),
          (Some ''body'',
           Node ''block'' 13 39 1 2 [(None,
             Node ''function_definition'' 13 39 1 2
               [(None, leaf ''def'' 13 16 1),
                (Some ''name'', leaf ''identifier'' 17 18 1),
                (Some ''parameters'', leaf ''parameters'' 18 24 1),
                (None, leaf '':'' 24 25 1),
                (Some ''body'',
                 Node ''block'' 34 39 2 2 [(None,
                   Node ''expression_statement'' 34 39 2 2 [(None,
                     Node ''assignment'' 34 39 2 2
                       [(Some ''left'', leaf ''identifier'' 34 35 2),
                        (None, leaf ''='' 36 37 2),
                        (Some ''right'', leaf ''integer'' 38 39 2)])])])])])])]"

text \<open>
  Python source with one call inside a function and one at module level:
  \<^verbatim>\<open>
  def f():
      g()
  h()
  \<close>
\<close>

definition calls_src :: string where
  "calls_src = ''def f():'' @ [newline] @ ''    g()'' @ [newline] @ ''h()'' @ [newline]"

definition inner_call :: node where
  "inner_call =
     Node ''call'' 13 16 1 1
       [(Some ''function'', leaf ''identifier'' 13 14 1),
        (Some ''arguments'', leaf ''argument_list'' 14 16 1)]"

definition outer_call :: node where
  "outer_call =
     Node ''call'' 17 20 2 2
       [(Some ''function'', leaf ''identifier'' 17 18 2),
        (Some ''arguments'', leaf ''argument_list'' 18 20 2)]"

definition calls_tree :: node where
  "calls_tree =
     Node ''module'' 0 21 0 3
       [(None,
         Node ''function_definition'' 0 16 0 1
           [(None, leaf ''def'' 0 3 0),
            (Some ''name'', leaf ''identifier'' 4 5 0),
            (Some ''parameters'', leaf ''parameters'' 5 7 0),
            (None, leaf '':'' 7 8 0),
            (Some ''body'',
             Node ''block'' 13 16 1 1 [(None,
               Node ''expression_statement'' 13 16 1 1 [(None, inner_call)])])]),
        (None, Node ''expression_statement'' 17 20 2 2 [(None, outer_call)])]"

text \<open>
  C source with one call inside a function and one in the initialiser of a global:
  \<^verbatim>\<open>
  void f(void) { g(); }
  int x = h();
  \<close>
\<close>

definition c_calls_src :: string where
  "c_calls_src = ''void f(void) { g(); }'' @ [newline] @ ''int x = h();'' @ [newline]"

definition c_inner_call :: node where
  "c_inner_call =
     Node ''call_expression'' 15 18 0 0
       [(Some ''function'', leaf ''identifier'' 15 16 0),
        (Some ''arguments'', leaf ''argument_list'' 16 18 0)]"

definition c_outer_call :: node where
  "c_outer_call =
     Node ''call_expression'' 30 33 1 1
       [(Some ''function'', leaf ''identifier'' 30 31 1),
        (Some ''arguments'', leaf ''argument_list'' 31 33 1)]"

definition c_calls_def :: node where
  "c_calls_def =
     Node ''function_definition'' 0 21 0 0
       [(Some ''type'', leaf ''primitive_type'' 0 4 0),
        (Some ''declarator'',
         Node ''function_declarator'' 5 12 0 0
           [(Some ''declarator'', leaf ''identifier'' 5 6 0),
            (Some ''parameters'', leaf ''parameter_list'' 6 12 0)]),
        (Some ''body'',
         Node ''compound_statement'' 13 21 0 0
           [(None, leaf ''{'' 13 14 0),
            (None, Node ''expression_statement'' 15 19 0 0
               [(None, c_inner_call), (None, leaf '';'' 18 19 0)]),
            (None, leaf ''}'' 20 21 0)])]"

definition c_calls_tree :: node where
  "c_calls_tree =
     Node ''translation_unit'' 0 35 0 2
       [(None, c_calls_def),
        (None,
         Node ''declaration'' 22 34 1 1
           [(Some ''type'', leaf ''primitive_type'' 22 25 1),
            (Some ''declarator'',
             Node ''init_declarator'' 26 33 1 1
               [(Some ''declarator'', leaf ''identifier'' 26 27 1),
                (None, leaf ''='' 28 29 1),
                (Some ''value'', c_outer_call)]),
            (None, leaf '';'' 33 34 1)])]"

text \<open>
  C++ source with one call inside a member function defined outside its class and one
  in the initialiser of a global:
  \<^verbatim>\<open>
  void A::f() { g(); }
  int x = h();
  \<close>
\<close>

definition cpp_calls_src :: string where
  "cpp_calls_src = ''void A::f() { g(); }'' @ [newline] @ ''int x = h();'' @ [newline]"

definition cpp_inner_call :: node where
  "cpp_inner_call =
     Node ''call_expression'' 14 17 0 0
       [(Some ''function'', leaf ''identifier'' 14 15 0),
        (Some ''arguments'', leaf ''argument_list'' 15 17 0)]"

definition cpp_outer_call :: node where
  "cpp_outer_call =
     Node ''call_expression'' 29 32 1 1
       [(Some ''function'', leaf ''identifier'' 29 30 1),
        (Some ''arguments'', leaf ''argument_list'' 30 32 1)]"

definition cpp_calls_declarator :: node where
  "cpp_calls_declarator =
     Node ''function_declarator'' 5 11 0 0
       [(Some ''declarator'',
         Node ''qualified_identifier'' 5 9 0 0
           [(Some ''scope'', leaf ''namespace_identifier'' 5 6 0),
            (None, leaf ''::'' 6 8 0),
            (Some ''name'', leaf ''identifier'' 8 9 0)]),
        (Some ''parameters'', leaf ''parameter_list'' 9 11 0)]"

definition cpp_calls_def :: node where
  "cpp_calls_def =
     Node ''function_definition'' 0 20 0 0
       [(Some ''type'', leaf ''primitive_type'' 0 4 0),
        (Some ''declarator'', cpp_calls_declarator),
        (Some ''body'',
         Node ''compound_statement'' 12 20 0 0
           [(None, leaf ''{'' 12 13 0),
            (None, Node ''expression_statement'' 14 18 0 0
               [(None, cpp_inner_call), (None, leaf '';'' 17 18 0)]),
            (None, leaf ''}'' 19 20 0)])]"

definition cpp_calls_tree :: node where
  "cpp_calls_tree =
     Node ''translation_unit'' 0 34 0 2
       [(None, cpp_calls_def),
        (None,
         Node ''declaration'' 21 33 1 1
           [(Some ''type'', leaf ''primitive_type'' 21 24 1),
            (Some ''declarator'',
             Node ''init_declarator'' 25 32 1 1
               [(Some ''declarator'', leaf ''identifier'' 25 26 1),
                (None, leaf ''='' 27 28 1),
                (Some ''value'', cpp_outer_call)]),
            (None, leaf '';'' 32 33 1)])]"

text \<open>
  A C function that returns a pointer to a function; its declarator holds two
  \<open>function_declarator\<close> nodes, the inner one with the parameters of \<open>f\<close> itself:
  \<^verbatim>\<open>int (*f(int a))(double) { return 0; }\<close>
\<close>

definition fn_returning_fnptr_src :: string where
  "fn_returning_fnptr_src = ''int (*f(int a))(double) { return 0; }'' @ [newline]"

definition inner_function_declarator :: node where
  "inner_function_declarator =
     Node ''function_declarator'' 6 14 0 0
       [(Some ''declarator'', leaf ''identifier'' 6 7 0),
        (Some ''parameters'', leaf ''parameter_list'' 7 14 0)]"

definition inner_pointer_declarator :: node where
  "inner_pointer_declarator =
     Node ''pointer_declarator'' 5 14 0 0
       [(None, leaf ''*'' 5 6 0),
        (Some ''declarator'', inner_function_declarator)]"

definition outer_function_declarator :: node where
  "outer_function_declarator =
     Node ''function_declarator'' 4 23 0 0
       [(Some ''declarator'',
         Node ''parenthesized_declarator'' 4 15 0 0
           [(None, leaf ''('' 4 5 0),
            (None, inner_pointer_declarator),
            (None, leaf '')'' 14 15 0)]),
        (Some ''parameters'', leaf ''parameter_list'' 15 23 0)]"

definition fn_returning_fnptr_def :: node where
  "fn_returning_fnptr_def =
     Node ''function_definition'' 0 37 0 0
         [(Some ''type'', leaf ''primitive_type'' 0 3 0),
          (Some ''declarator'', outer_function_declarator),
          (Some ''body'', leaf ''compound_statement'' 24 37 0)]"

definition fn_returning_fnptr_tree :: node where
  "fn_returning_fnptr_tree =
     Node ''translation_unit'' 0 38 0 1 [(None, fn_returning_fnptr_def)]"




text \<open>
  A function whose first statement is a call and whose second is a string:
  \<^verbatim>\<open>
  def f():
      g()
      "oops"
  \<close>
\<close>

definition late_string_src :: string where
  "late_string_src =
     ''def f():'' @ [newline] @ ''    g()'' @ [newline]
       @ ''    '' @ [dquote] @ ''oops'' @ [dquote] @ [newline]"

definition late_string_body :: node where
  "late_string_body =
     Node ''block'' 13 27 1 2
       [(None,
         Node ''expression_statement'' 13 16 1 1 [(None,
           Node ''call'' 13 16 1 1
             [(Some ''function'', leaf ''identifier'' 13 14 1),
              (Some ''arguments'', leaf ''argument_list'' 14 16 1)])]),
        (None,
         Node ''expression_statement'' 21 27 2 2 [(None,
           Node ''string'' 21 27 2 2
             [(None, leaf ''string_start'' 21 22 2),
              (None, leaf ''string_content'' 22 26 2),
              (None, leaf ''string_end'' 26 27 2)])])]"

definition late_string_tree :: node where
  "late_string_tree =
     Node ''module'' 0 28 0 3 [(None,
       Node ''function_definition'' 0 27 0 2
         [(None, leaf ''def'' 0 3 0),
          (Some ''name'', leaf ''identifier'' 4 5 0),
          (Some ''parameters'', leaf ''parameters'' 5 7 0),
          (None, leaf '':'' 7 8 0),
          (Some ''body'', late_string_body)])]"

text \<open>
  A C global variable that points to a function:
  \<^verbatim>\<open>int (*fp)(void);\<close>
\<close>

definition fnptr_var_src :: string where
  "fnptr_var_src = ''int (*fp)(void);'' @ [newline]"

definition fnptr_var_declarator :: node where
  "fnptr_var_declarator =
     Node ''function_declarator'' 4 15 0 0
       [(Some ''declarator'',
         Node ''parenthesized_declarator'' 4 9 0 0
           [(None, leaf ''('' 4 5 0),
            (None,
             Node ''pointer_declarator'' 5 8 0 0
               [(None, leaf ''*'' 5 6 0),
                (Some ''declarator'', leaf ''identifier'' 6 8 0)]),
            (None, leaf '')'' 8 9 0)]),
        (Some ''parameters'', leaf ''parameter_list'' 9 15 0)]"

definition fnptr_var_declaration :: node where
  "fnptr_var_declaration =
     Node ''declaration'' 0 16 0 0
       [(Some ''type'', leaf ''primitive_type'' 0 3 0),
        (Some ''declarator'', fnptr_var_declarator),
        (None, leaf '';'' 15 16 0)]"

definition fnptr_var_tree :: node where
  "fnptr_var_tree = Node ''translation_unit'' 0 17 0 1 [(None, fnptr_var_declaration)]"

text \<open>
  A struct with one field, the same tree in C and in C++:
  \<^verbatim>\<open>struct S { int x; };\<close>
\<close>

definition struct_field_src :: string where
  "struct_field_src = ''struct S { int x; };'' @ [newline]"

definition struct_field_tree :: node where
  "struct_field_tree =
     Node ''translation_unit'' 0 21 0 1
       [(None,
         Node ''struct_specifier'' 0 19 0 0
           [(None, leaf ''struct'' 0 6 0),
            (Some ''name'', leaf ''type_identifier'' 7 8 0),
            (Some ''body'',
             Node ''field_declaration_list'' 9 19 0 0
               [(None, leaf ''{'' 9 10 0),
                (None,
                 Node ''field_declaration'' 11 17 0 0
                   [(Some ''type'', leaf ''primitive_type'' 11 14 0),
                    (Some ''declarator'', leaf ''field_identifier'' 15 16 0),
                    (None, leaf '';'' 16 17 0)]),
                (None, leaf ''}'' 18 19 0)])]),
        (None, leaf '';'' 19 20 0)]"

text \<open>
  A C++ class whose field has an unnamed struct type with a field of its own:
  \<^verbatim>\<open>class A { struct { int y; } u; };\<close>
\<close>

definition nested_field_src :: string where
  "nested_field_src = ''class A { struct { int y; } u; };'' @ [newline]"

definition nested_field_tree :: node where
  "nested_field_tree =
     Node ''translation_unit'' 0 34 0 1
       [(None,
         Node ''class_specifier'' 0 32 0 0
           [(None, leaf ''class'' 0 5 0),
            (Some ''name'', leaf ''type_identifier'' 6 7 0),
            (Some ''body'',
             Node ''field_declaration_list'' 8 32 0 0
               [(None, leaf ''{'' 8 9 0),
                (None,
                 Node ''field_declaration'' 10 30 0 0
                   [(Some ''type'',
                     Node ''struct_specifier'' 10 27 0 0
                       [(None, leaf ''struct'' 10 16 0),
                        (Some ''body'',
                         Node ''field_declaration_list'' 17 27 0 0
                           [(None, leaf ''{'' 17 18 0),
                            (None,
                             Node ''field_declaration'' 19 25 0 0
                               [(Some ''type'', leaf ''primitive_type'' 19 22 0),
                                (Some ''declarator'', leaf ''field_identifier'' 23 24 0),
                                (None, leaf '';'' 24 25 0)]),
                            (None, leaf ''}'' 26 27 0)])]),
                    (Some ''declarator'', leaf ''field_identifier'' 28 29 0),
                    (None, leaf '';'' 29 30 0)]),
                (None, leaf ''}'' 31 32 0)])]),
        (None, leaf '';'' 32 33 0)]"



text \<open>
  A C variable whose type names a struct without giving its body:
  \<^verbatim>\<open>struct S *p;\<close>
\<close>

definition struct_pointer_src :: string where
  "struct_pointer_src = ''struct S *p;'' @ [newline]"

definition struct_pointer_type :: node where
  "struct_pointer_type =
     Node ''struct_specifier'' 0 8 0 0
       [(None, leaf ''struct'' 0 6 0),
        (Some ''name'', leaf ''type_identifier'' 7 8 0)]"

definition struct_pointer_tree :: node where
  "struct_pointer_tree =
     Node ''translation_unit'' 0 13 0 1
       [(None,
         Node ''declaration'' 0 12 0 0
           [(Some ''type'', struct_pointer_type),
            (Some ''declarator'',
             Node ''pointer_declarator'' 9 11 0 0
               [(None, leaf ''*'' 9 10 0),
                (Some ''declarator'', leaf ''identifier'' 10 11 0)]),
            (None, leaf '';'' 11 12 0)])]"

text \<open>
  The pointer to a function of \<open>fnptr_var_tree\<close> with an initialiser:
  \<^verbatim>\<open>int (*fp)(void) = 0;\<close>
\<close>

definition fnptr_init_src :: string where
  "fnptr_init_src = ''int (*fp)(void) = 0;'' @ [newline]"

definition fnptr_init_declarator :: node where
  "fnptr_init_declarator =
     Node ''init_declarator'' 4 19 0 0
       [(Some ''declarator'', fnptr_var_declarator),
        (None, leaf ''='' 16 17 0),
        (Some ''value'', leaf ''number_literal'' 18 19 0)]"

definition fnptr_init_declaration :: node where
  "fnptr_init_declaration =
     Node ''declaration'' 0 20 0 0
       [(Some ''type'', leaf ''primitive_type'' 0 3 0),
        (Some ''declarator'', fnptr_init_declarator),
        (None, leaf '';'' 19 20 0)]"

text \<open>
  The inner field declaration of \<open>nested_field_tree\<close>, with its ancestors, as the walk
  yields it.
\<close>

definition nested_inner_field :: nref where
  "nested_inner_field =
     filter (\<lambda>h. type (fst h) = ''field_declaration'') (preorder [] nested_field_tree) ! 1"

section \<open>Scope and class name of variables\<close>

lemma list_all_concat_map: "(\<And>x. list_all P (f x)) \<Longrightarrow> list_all P (concat (map f xs))"
  by (induction xs) auto

lemma py_assignment_scope: "list_all scope_consistent (py_extract_assignment h source)"
  unfolding py_extract_assignment_def scope_consistent_def
  by (simp split: option.splits prod.splits)

lemma py_annotated_scope: "list_all scope_consistent (py_extract_annotated_assignment h source)"
  unfolding py_extract_annotated_assignment_def scope_consistent_def
  by (simp split: option.splits prod.splits)

lemma c_declaration_scope: "list_all scope_consistent (c_extract_declaration n source)"
  unfolding c_extract_declaration_def scope_consistent_def
  by (simp split: option.splits)

lemma cpp_declaration_scope:
  "list_all scope_consistent (cpp_extract_declaration n source ''global'' None)"
  unfolding cpp_extract_declaration_def scope_consistent_def
  by (simp split: option.splits)

lemma cpp_field_scope: "list_all scope_consistent (cpp_extract_field n source cls)"
  unfolding cpp_extract_field_def scope_consistent_def
  by (simp split: option.splits)

lemma py_variables_scope: "list_all scope_consistent (py_variables_of nodes source)"
  unfolding py_variables_of_def
  by (rule list_all_concat_map) (simp add: py_assignment_scope py_annotated_scope)

lemma c_variables_scope: "list_all scope_consistent (c_variables_of nodes source)"
  unfolding c_variables_of_def
  by (rule list_all_concat_map) (simp add: c_declaration_scope split: option.splits)

lemma cpp_variables_scope: "list_all scope_consistent (cpp_variables_of nodes source)"
  unfolding cpp_variables_of_def
  by (rule list_all_concat_map)
    (simp add: cpp_declaration_scope cpp_field_scope split: option.splits)

lemma struct_field_cpp_variables:
  "cpp_extract_variables struct_field_tree struct_field_src =
     [\<lparr>VariableInfo.name = ''x'', line = 1, scope = ''class'',
       class_name = Some ''S'', type_hint = Some ''int''\<rparr>]"
  by code_simp

text \<open>
  C8. Every \<open>VariableInfo\<close> that \<open>extract_variables\<close> of the Python, the C or the C++
  extractor emits has its \<open>class_name\<close> set if and only if its scope is \<open>class\<close>; one
  with scope \<open>global\<close> carries no \<open>class_name\<close>.
\<close>

theorem variable_class_name_iff_scope:
  assumes "v \<in> set (extract_variables lang root source)"
  shows "(VariableInfo.class_name v \<noteq> None \<longleftrightarrow> scope v = ''class'')
         \<and> (scope v = ''global'' \<longrightarrow> VariableInfo.class_name v = None)"
proof -
  have "list_all scope_consistent (extract_variables lang root source)"
    by (cases lang)
      (simp_all add: extract_variables_def py_extract_variables_def c_extract_variables_def
        cpp_extract_variables_def py_variables_scope c_variables_scope cpp_variables_scope)
  with assms have "scope_consistent v"
    by (simp add: list_all_iff)
  then show ?thesis
    by (auto simp: scope_consistent_def)
qed

theorem variable_class_name_iff_scope_witness:
  "hd (extract_variables Cpp struct_field_tree struct_field_src)
     \<in> set (extract_variables Cpp struct_field_tree struct_field_src)
   \<and> scope (hd (extract_variables Cpp struct_field_tree struct_field_src)) = ''class''
   \<and> VariableInfo.class_name (hd (extract_variables Cpp struct_field_tree struct_field_src))
       = Some ''S''"
proof -
  let ?v = "hd (extract_variables Cpp struct_field_tree struct_field_src)"
  have ev: "extract_variables Cpp struct_field_tree struct_field_src =
      [\<lparr>VariableInfo.name = ''x'', line = 1, scope = ''class'',
        class_name = Some ''S'', type_hint = Some ''int''\<rparr>]"
    by (simp add: extract_variables_def struct_field_cpp_variables)
  have mem: "?v \<in> set (extract_variables Cpp struct_field_tree struct_field_src)"
    by (simp add: ev)
  have sc: "scope ?v = ''class''"
    by (simp add: ev)
  from variable_class_name_iff_scope [OF mem] sc
  have "VariableInfo.class_name ?v \<noteq> None" by simp
  then have "VariableInfo.class_name ?v = Some ''S''"
    by (simp add: ev)
  with mem sc show ?thesis by simp
qed

section \<open>Call attribution: the first range that holds the call\<close>

lemma list_ex_upt: "list_ex P [0..<n] = (\<exists>i<n. P i)"
  by (auto simp: list_ex_iff)

lemma attributed_None: "attributed table pos None = list_all (\<lambda>r. \<not> covers r pos) table"
  by (simp add: attributed_def)

lemma attributed_Some:
  "attributed table pos (Some nm) =
     (\<exists>i<length table. covers (table ! i) pos \<and> snd (snd (table ! i)) = nm
                        \<and> list_all (\<lambda>r. \<not> covers r pos) (take i table))"
  unfolding attributed_def option.case list_ex_upt ..

lemma attributed_Nil: "attributed [] pos c = (c = None)"
  by (cases c) (simp_all add: attributed_None attributed_Some)

lemma attributed_Cons:
  "attributed (r # rs) pos c =
     (if covers r pos then c = Some (snd (snd r)) else attributed rs pos c)"
proof (cases c)
  case None
  then show ?thesis by (simp add: attributed_None)
next
  case (Some nm)
  show ?thesis
    unfolding Some attributed_Some
    by (simp add: Ex_less_Suc2 del: upt_Suc) auto
qed

lemma find_caller_attributed: "attributed table pos c \<longleftrightarrow> c = find_caller table pos"
proof (induction table)
  case Nil
  then show ?case by (simp add: attributed_Nil)
next
  case (Cons r rs)
  obtain s e nm where r: "r = (s, e, nm)" by (cases r)
  show ?case
    unfolding attributed_Cons Cons.IH by (auto simp: r covers_def)
qed

lemma py_call_info_caller:
  "list_all (\<lambda>ci. caller_function ci = find_caller table (start_byte n))
     (py_call_info table n source)"
  unfolding py_call_info_def by (simp split: option.splits)

lemma c_call_info_caller:
  "list_all (\<lambda>ci. caller_function ci = find_caller table (start_byte n))
     (c_call_info table n source)"
  unfolding c_call_info_def by (simp split: option.splits)

lemma cpp_call_info_caller:
  "list_all (\<lambda>ci. caller_function ci = find_caller table (start_byte n))
     (cpp_call_info table n source)"
  unfolding cpp_call_info_def by (simp split: option.splits)

lemma call_info_caller:
  "list_all (\<lambda>ci. caller_function ci = find_caller table (start_byte n))
     (call_info lang table n source)"
  by (cases lang)
    (simp_all add: call_info_def py_call_info_caller c_call_info_caller cpp_call_info_caller)

lemma concat_map_if_filter:
  "concat (map (\<lambda>x. if P x then f x else []) xs) = concat (map f (filter P xs))"
  by (induction xs) auto

lemma extract_calls_preorder:
  "extract_calls lang root source =
     concat (map (\<lambda>h. call_info lang (func_ranges lang (preorder [] root) source) (fst h) source)
       (filter (\<lambda>h. type (fst h) = call_type lang) (preorder [] root)))"
  by (cases lang)
    (simp_all add: extract_calls_def call_info_def func_ranges_def call_type_def
      py_extract_calls_def py_calls_of_def c_extract_calls_def c_calls_of_def
      cpp_extract_calls_def cpp_calls_of_def walk_tree_preorder concat_map_if_filter)

lemma func_ranges_concat:
  "func_ranges lang nodes source = concat (map (\<lambda>h. func_ranges lang [h] source) nodes)"
  by (cases lang)
    (simp_all add: func_ranges_def py_func_ranges_def c_func_ranges_def cpp_func_ranges_def)

lemma func_ranges_single:
  "func_ranges lang [h] source = [] \<or>
     (\<exists>nm. func_ranges lang [h] source = [(start_byte (fst h), end_byte (fst h), nm)]
           \<and> type (fst h) = ''function_definition'')"
  by (cases lang)
    (simp_all add: func_ranges_def py_func_ranges_def c_func_ranges_def cpp_func_ranges_def
      split: option.splits)

lemma py_func_ranges_row:
  "type (fst h) = ''function_definition'' \<Longrightarrow>
   child_by_field_name (fst h) ''name'' = Some name_node \<Longrightarrow>
     func_ranges Python [h] source =
       [(start_byte (fst h), end_byte (fst h), get_node_text name_node source)]"
  by (simp add: func_ranges_def py_func_ranges_def)

lemma c_func_ranges_row:
  "type (fst h) = ''function_definition'' \<Longrightarrow>
   child_by_field_name (fst h) ''declarator'' = Some d \<Longrightarrow>
   fst (c_extract_declarator_info d source) = Some nm \<Longrightarrow> nm \<noteq> [] \<Longrightarrow>
     func_ranges C [h] source = [(start_byte (fst h), end_byte (fst h), nm)]"
  by (simp add: func_ranges_def c_func_ranges_def)

lemma cpp_func_ranges_row:
  "type (fst h) = ''function_definition'' \<Longrightarrow>
   child_by_field_name (fst h) ''declarator'' = Some d \<Longrightarrow>
   fst (cpp_extract_declarator_info d source) = Some nm \<Longrightarrow> nm \<noteq> [] \<Longrightarrow>
     func_ranges Cpp [h] source =
       [(start_byte (fst h), end_byte (fst h), snd (cpp_split_qualified nm))]"
  by (simp add: func_ranges_def cpp_func_ranges_def)

lemma call_info_identifier:
  "child_by_field_name n ''function'' = Some f \<Longrightarrow> type f = ''identifier'' \<Longrightarrow>
   get_node_text f source \<noteq> [] \<Longrightarrow>
     call_info lang table n source =
       [\<lparr>callee_name = get_node_text f source, line = start_row n + 1,
         caller_function = find_caller table (start_byte n)\<rparr>]"
  by (cases lang) (simp_all add: call_info_def py_call_info_def c_call_info_def cpp_call_info_def)

lemma calls_tree_calls:
  "py_extract_calls calls_tree calls_src =
     [\<lparr>callee_name = ''g'', line = 2, caller_function = Some ''f''\<rparr>,
      \<lparr>callee_name = ''h'', line = 3, caller_function = None\<rparr>]"
  by code_simp

lemma calls_tree_ranges:
  "py_func_ranges (walk_tree calls_tree) calls_src = [(0, 16, ''f'')]"
  by code_simp

lemma c_calls_tree_calls:
  "c_extract_calls c_calls_tree c_calls_src =
     [\<lparr>callee_name = ''g'', line = 1, caller_function = Some ''f''\<rparr>,
      \<lparr>callee_name = ''h'', line = 2, caller_function = None\<rparr>]"
  by code_simp

lemma cpp_calls_tree_calls:
  "cpp_extract_calls cpp_calls_tree cpp_calls_src =
     [\<lparr>callee_name = ''g'', line = 1, caller_function = Some ''f''\<rparr>,
      \<lparr>callee_name = ''h'', line = 2, caller_function = None\<rparr>]"
  by code_simp

lemma calls_def_name:
  "type (fst (hd (children calls_tree), [calls_tree])) = ''function_definition''
   \<and> child_by_field_name (fst (hd (children calls_tree), [calls_tree])) ''name''
       = Some (leaf ''identifier'' 4 5 0)
   \<and> start_byte (hd (children calls_tree)) = 0 \<and> end_byte (hd (children calls_tree)) = 16
   \<and> get_node_text (leaf ''identifier'' 4 5 0) calls_src = ''f''"
  by code_simp

lemma c_calls_def_name:
  "type c_calls_def = ''function_definition''
   \<and> child_by_field_name c_calls_def ''declarator''
       = Some (Node ''function_declarator'' 5 12 0 0
           [(Some ''declarator'', leaf ''identifier'' 5 6 0),
            (Some ''parameters'', leaf ''parameter_list'' 6 12 0)])
   \<and> fst (c_extract_declarator_info
         (Node ''function_declarator'' 5 12 0 0
           [(Some ''declarator'', leaf ''identifier'' 5 6 0),
            (Some ''parameters'', leaf ''parameter_list'' 6 12 0)]) c_calls_src) = Some ''f''
   \<and> start_byte c_calls_def = 0 \<and> end_byte c_calls_def = 21"
  by code_simp

lemma cpp_calls_def_name:
  "type cpp_calls_def = ''function_definition''
   \<and> child_by_field_name cpp_calls_def ''declarator'' = Some cpp_calls_declarator
   \<and> fst (cpp_extract_declarator_info cpp_calls_declarator cpp_calls_src) = Some ''A::f''
   \<and> snd (cpp_split_qualified ''A::f'') = ''f''
   \<and> start_byte cpp_calls_def = 0 \<and> end_byte cpp_calls_def = 20"
  by code_simp

lemma c_inner_call_callee:
  "child_by_field_name c_inner_call ''function'' = Some (leaf ''identifier'' 15 16 0)
   \<and> type (leaf ''identifier'' 15 16 0) = ''identifier''
   \<and> get_node_text (leaf ''identifier'' 15 16 0) c_calls_src = ''g''
   \<and> start_byte c_inner_call = 15 \<and> start_row c_inner_call = 0"
  by code_simp

lemma cpp_outer_call_callee:
  "child_by_field_name cpp_outer_call ''function'' = Some (leaf ''identifier'' 29 30 1)
   \<and> type (leaf ''identifier'' 29 30 1) = ''identifier''
   \<and> get_node_text (leaf ''identifier'' 29 30 1) cpp_calls_src = ''h''
   \<and> start_byte cpp_outer_call = 29 \<and> start_row cpp_outer_call = 1"
  by code_simp

text \<open>
  C3. In each of the three extractors, \<open>extract_calls\<close> visits the call nodes in
  pre-order and gives each the caller found in the table of function ranges. The table
  lists, in pre-order, one row for every function definition whose name resolves: its own
  byte range with the text of its \<open>name\<close> field (Python) or the name its declarator
  resolves to (C; in C++ the part after the last \<open>::\<close>). A call node whose callee is an
  identifier yields one \<open>CallInfo\<close>, and the caller of every \<open>CallInfo\<close> a call node
  yields is the name of the first row of the table that encloses the node's start byte,
  and \<open>None\<close> when no row does; that rule leaves exactly one choice, the one the scan of
  the table makes.
\<close>

theorem caller_attribution:
  "extract_calls lang root source =
     concat (map (\<lambda>h. call_info lang (func_ranges lang (preorder [] root) source) (fst h) source)
       (filter (\<lambda>h. type (fst h) = call_type lang) (preorder [] root)))
   \<and> func_ranges lang nodes source = concat (map (\<lambda>h. func_ranges lang [h] source) nodes)
   \<and> (func_ranges lang [h] source = [] \<or>
        (\<exists>nm. func_ranges lang [h] source = [(start_byte (fst h), end_byte (fst h), nm)]
              \<and> type (fst h) = ''function_definition''))
   \<and> (type (fst h) = ''function_definition''
        \<and> child_by_field_name (fst h) ''name'' = Some name_node \<longrightarrow>
        func_ranges Python [h] source =
          [(start_byte (fst h), end_byte (fst h), get_node_text name_node source)])
   \<and> (type (fst h) = ''function_definition''
        \<and> child_by_field_name (fst h) ''declarator'' = Some d
        \<and> fst (c_extract_declarator_info d source) = Some nm \<and> nm \<noteq> [] \<longrightarrow>
        func_ranges C [h] source = [(start_byte (fst h), end_byte (fst h), nm)])
   \<and> (type (fst h) = ''function_definition''
        \<and> child_by_field_name (fst h) ''declarator'' = Some d
        \<and> fst (cpp_extract_declarator_info d source) = Some nm \<and> nm \<noteq> [] \<longrightarrow>
        func_ranges Cpp [h] source =
          [(start_byte (fst h), end_byte (fst h), snd (cpp_split_qualified nm))])
   \<and> list_all (\<lambda>ci. attributed table (start_byte n) (caller_function ci))
        (call_info lang table n source)
   \<and> (child_by_field_name n ''function'' = Some f \<and> type f = ''identifier''
        \<and> get_node_text f source \<noteq> [] \<longrightarrow>
        call_info lang table n source =
          [\<lparr>callee_name = get_node_text f source, line = start_row n + 1,
            caller_function = find_caller table (start_byte n)\<rparr>])
   \<and> (attributed table pos c \<longleftrightarrow> c = find_caller table pos)"
proof -
  have "list_all (\<lambda>ci. attributed table (start_byte n) (caller_function ci))
          (call_info lang table n source)"
    using call_info_caller [of table n lang source]
    by (simp add: find_caller_attributed)
  then show ?thesis
    using extract_calls_preorder [of lang root source] func_ranges_concat [of lang nodes source]
      func_ranges_single [of lang h source] py_func_ranges_row [of h name_node source]
      c_func_ranges_row [of h d source nm] cpp_func_ranges_row [of h d source nm]
      call_info_identifier [of n f source lang table]
      find_caller_attributed [of table pos c]
    by blast
qed

theorem caller_attribution_witness:
  "map caller_function (extract_calls Python calls_tree calls_src) = [Some ''f'', None]
   \<and> map caller_function (extract_calls C c_calls_tree c_calls_src) = [Some ''f'', None]
   \<and> map caller_function (extract_calls Cpp cpp_calls_tree cpp_calls_src) = [Some ''f'', None]
   \<and> func_ranges Python [(hd (children calls_tree), [calls_tree])] calls_src = [(0, 16, ''f'')]
   \<and> func_ranges C [(c_calls_def, [c_calls_tree])] c_calls_src = [(0, 21, ''f'')]
   \<and> func_ranges Cpp [(cpp_calls_def, [cpp_calls_tree])] cpp_calls_src = [(0, 20, ''f'')]
   \<and> call_info C [(0, 21, ''f'')] c_inner_call c_calls_src =
       [\<lparr>callee_name = ''g'', line = 1, caller_function = Some ''f''\<rparr>]
   \<and> call_info Cpp [(0, 20, ''f'')] cpp_outer_call cpp_calls_src =
       [\<lparr>callee_name = ''h'', line = 2, caller_function = None\<rparr>]
   \<and> attributed [(0, 16, ''f'')] 13 (Some ''f'')
   \<and> attributed [(0, 16, ''f'')] 17 None
   \<and> attributed [(0, 21, ''f'')] 15 (Some ''f'')
   \<and> attributed [(0, 20, ''f'')] 29 None"
proof -
  note py = caller_attribution [where lang = Python and root = calls_tree
      and source = calls_src and nodes = "[]"
      and h = "(hd (children calls_tree), [calls_tree])"
      and name_node = "leaf ''identifier'' 4 5 0" and table = "[(0, 16, ''f'')]"]
  note c = caller_attribution [where lang = C and root = c_calls_tree
      and source = c_calls_src and nodes = "[]" and h = "(c_calls_def, [c_calls_tree])"
      and d = "Node ''function_declarator'' 5 12 0 0
           [(Some ''declarator'', leaf ''identifier'' 5 6 0),
            (Some ''parameters'', leaf ''parameter_list'' 6 12 0)]"
      and nm = "''f''" and table = "[(0, 21, ''f'')]" and n = c_inner_call
      and f = "leaf ''identifier'' 15 16 0"]
  note cpp = caller_attribution [where lang = Cpp and root = cpp_calls_tree
      and source = cpp_calls_src and nodes = "[]" and h = "(cpp_calls_def, [cpp_calls_tree])"
      and d = cpp_calls_declarator and nm = "''A::f''" and table = "[(0, 20, ''f'')]"
      and n = cpp_outer_call and f = "leaf ''identifier'' 29 30 1"]
  have find_in: "find_caller [(0, 16, ''f'')] 13 = Some ''f''"
    by simp
  have find_out: "find_caller [(0, 16, ''f'')] 17 = None"
    by simp
  have a: "attributed [(0, 16, ''f'')] 13 (Some ''f'')"
    using py [where pos = 13 and c = "Some ''f''"] find_in by simp
  have b: "attributed [(0, 16, ''f'')] 17 None"
    using py [where pos = 17 and c = None] find_out by simp
  have pyrow: "func_ranges Python [(hd (children calls_tree), [calls_tree])] calls_src
      = [(0, 16, ''f'')]"
    using py calls_def_name by simp
  have crow: "func_ranges C [(c_calls_def, [c_calls_tree])] c_calls_src = [(0, 21, ''f'')]"
    using c c_calls_def_name by simp
  have cpprow: "func_ranges Cpp [(cpp_calls_def, [cpp_calls_tree])] cpp_calls_src
      = [(0, 20, ''f'')]"
    using cpp cpp_calls_def_name by simp
  have find_c: "find_caller [(0, 21, ''f'')] 15 = Some ''f''"
    by simp
  have find_cpp: "find_caller [(0, 20, ''f'')] 29 = None"
    by simp
  have ccall: "call_info C [(0, 21, ''f'')] c_inner_call c_calls_src =
       [\<lparr>callee_name = ''g'', line = 1, caller_function = Some ''f''\<rparr>]"
    using c c_inner_call_callee find_c by simp
  have cppcall: "call_info Cpp [(0, 20, ''f'')] cpp_outer_call cpp_calls_src =
       [\<lparr>callee_name = ''h'', line = 2, caller_function = None\<rparr>]"
    using cpp cpp_outer_call_callee find_cpp by simp
  have e: "attributed [(0, 21, ''f'')] 15 (Some ''f'')"
    using c [where pos = 15 and c = "Some ''f''"] find_c by simp
  have g: "attributed [(0, 20, ''f'')] 29 None"
    using cpp [where pos = 29 and c = None] find_cpp by simp
  have lists: "extract_calls Python calls_tree calls_src = py_extract_calls calls_tree calls_src"
    "extract_calls C c_calls_tree c_calls_src = c_extract_calls c_calls_tree c_calls_src"
    "extract_calls Cpp cpp_calls_tree cpp_calls_src
       = cpp_extract_calls cpp_calls_tree cpp_calls_src"
    by (simp_all add: extract_calls_def)
  show ?thesis
    using a b e g pyrow crow cpprow ccall cppcall
    by (simp add: lists calls_tree_calls c_calls_tree_calls cpp_calls_tree_calls)
qed

section \<open>Line ranges of functions and classes\<close>

lemma rows_ordered_preorder:
  "rows_ordered n \<Longrightarrow> list_all (\<lambda>h. start_row (fst h) \<le> end_row (fst h)) (preorder anc n)"
proof (induction anc n rule: preorder.induct)
  case (1 anc n)
  from "1.prems" have here: "start_row n \<le> end_row n"
    and kids: "list_all rows_ordered (children n)"
    by (simp_all add: rows_ordered.simps [of n])
  have "list_all (\<lambda>h. start_row (fst h) \<le> end_row (fst h))
          (concat (map (preorder (n # anc)) (children n)))"
    using "1.IH" kids by (auto simp: list_all_iff)
  then show ?case
    using here by (simp add: preorder.simps [of anc n])
qed

lemma list_all_concat_map_on:
  "list_all Q xs \<Longrightarrow> (\<And>x. Q x \<Longrightarrow> list_all P (f x)) \<Longrightarrow> list_all P (concat (map f xs))"
  by (induction xs) auto

lemma py_function_lines:
  "FunctionInfo.line_start (py_extract_function h source) = start_row (fst h) + 1
   \<and> FunctionInfo.line_end (py_extract_function h source) = end_row (fst h) + 1"
  by (simp add: py_extract_function_def Let_def)

lemma py_class_lines:
  "ClassInfo.line_start (py_extract_class n source) = start_row n + 1
   \<and> ClassInfo.line_end (py_extract_class n source) = end_row n + 1"
  by (simp add: py_extract_class_def Let_def)

lemma c_function_lines:
  "c_extract_function n source = Some f \<Longrightarrow>
     FunctionInfo.line_start f = start_row n + 1 \<and> FunctionInfo.line_end f = end_row n + 1"
  by (auto simp: c_extract_function_def Let_def split: option.splits if_splits prod.splits)

lemma cpp_function_lines:
  "cpp_extract_function n source = Some f \<Longrightarrow>
     FunctionInfo.line_start f = start_row n + 1 \<and> FunctionInfo.line_end f = end_row n + 1"
  by (auto simp: cpp_extract_function_def Let_def split: option.splits if_splits prod.splits)

lemma c_struct_lines:
  "c_extract_struct n source = Some c \<Longrightarrow>
     ClassInfo.line_start c = start_row n + 1
     \<and> ClassInfo.line_end c =
         (if child_by_field_name n ''body'' = None then start_row n + 1 else end_row n + 1)"
  by (auto simp: c_extract_struct_def split: option.splits)

lemma cpp_class_lines:
  "cpp_extract_class n source = Some c \<Longrightarrow>
     ClassInfo.line_start c = start_row n + 1
     \<and> ClassInfo.line_end c =
         (if child_by_field_name n ''body'' = None then start_row n + 1 else end_row n + 1)"
  by (auto simp: cpp_extract_class_def Let_def split: option.splits)

lemma py_functions_ordered:
  "list_all (\<lambda>h. start_row (fst h) \<le> end_row (fst h)) nodes \<Longrightarrow>
     list_all (\<lambda>f. FunctionInfo.line_start f \<le> FunctionInfo.line_end f)
       (py_functions_of nodes source)"
  by (induction nodes) (auto simp: py_functions_of_def py_function_lines)

lemma py_classes_ordered:
  "list_all (\<lambda>h. start_row (fst h) \<le> end_row (fst h)) nodes \<Longrightarrow>
     list_all (\<lambda>c. ClassInfo.line_start c \<le> ClassInfo.line_end c)
       (py_classes_of nodes source)"
  by (induction nodes) (auto simp: py_classes_of_def py_class_lines)

lemma c_functions_ordered:
  "list_all (\<lambda>h. start_row (fst h) \<le> end_row (fst h)) nodes \<Longrightarrow>
     list_all (\<lambda>f. FunctionInfo.line_start f \<le> FunctionInfo.line_end f)
       (c_functions_of nodes source)"
  unfolding c_functions_of_def
  by (erule list_all_concat_map_on) (auto split: option.splits dest: c_function_lines)

lemma cpp_functions_ordered:
  "list_all (\<lambda>h. start_row (fst h) \<le> end_row (fst h)) nodes \<Longrightarrow>
     list_all (\<lambda>f. FunctionInfo.line_start f \<le> FunctionInfo.line_end f)
       (cpp_functions_of nodes source)"
  unfolding cpp_functions_of_def
  by (erule list_all_concat_map_on) (auto split: option.splits dest: cpp_function_lines)

lemma c_classes_ordered:
  "list_all (\<lambda>h. start_row (fst h) \<le> end_row (fst h)) nodes \<Longrightarrow>
     list_all (\<lambda>c. ClassInfo.line_start c \<le> ClassInfo.line_end c)
       (c_classes_of nodes source)"
  unfolding c_classes_of_def
  by (erule list_all_concat_map_on) (auto split: option.splits dest: c_struct_lines)

lemma cpp_classes_ordered:
  "list_all (\<lambda>h. start_row (fst h) \<le> end_row (fst h)) nodes \<Longrightarrow>
     list_all (\<lambda>c. ClassInfo.line_start c \<le> ClassInfo.line_end c)
       (cpp_classes_of nodes source)"
  unfolding cpp_classes_of_def
  by (erule list_all_concat_map_on) (auto split: option.splits dest: cpp_class_lines)

lemma method_local_functions:
  "py_extract_functions method_local_tree method_local_src =
     [\<lparr>FunctionInfo.name = ''m'', line_start = 2, line_end = 3,
       signature = ''def m(self)'', class_name = Some ''C'', docstring = None\<rparr>]"
  by code_simp

lemma method_local_rows: "rows_ordered method_local_tree"
  by code_simp

text \<open>
  C10. On a tree whose nodes all end on or after the row they start on, every
  \<open>FunctionInfo\<close> and every \<open>ClassInfo\<close> that any of the three extractors emits has
  \<open>line_start \<le> line_end\<close>. Both lines come from the entity's own node (row plus one),
  except that a C or C++ struct or class without a body gets \<open>line_end = line_start\<close>.
\<close>

theorem line_range_ordered:
  assumes "rows_ordered root"
  shows "list_all (\<lambda>f. FunctionInfo.line_start f \<le> FunctionInfo.line_end f)
           (extract_functions lang root source)
         \<and> list_all (\<lambda>c. ClassInfo.line_start c \<le> ClassInfo.line_end c)
             (extract_classes lang root source)
         \<and> FunctionInfo.line_start (py_extract_function h source) = start_row (fst h) + 1
         \<and> FunctionInfo.line_end (py_extract_function h source) = end_row (fst h) + 1
         \<and> ClassInfo.line_start (py_extract_class n source) = start_row n + 1
         \<and> ClassInfo.line_end (py_extract_class n source) = end_row n + 1
         \<and> (c_extract_function n source = Some f \<or> cpp_extract_function n source = Some f
              \<longrightarrow> FunctionInfo.line_start f = start_row n + 1
                  \<and> FunctionInfo.line_end f = end_row n + 1)
         \<and> (c_extract_struct n source = Some c \<or> cpp_extract_class n source = Some c
              \<longrightarrow> ClassInfo.line_start c = start_row n + 1
                  \<and> ClassInfo.line_end c =
                      (if child_by_field_name n ''body'' = None then start_row n + 1
                       else end_row n + 1))"
proof -
  have nodes: "list_all (\<lambda>h. start_row (fst h) \<le> end_row (fst h)) (walk_tree root)"
    unfolding walk_tree_preorder using assms by (rule rows_ordered_preorder)
  have funs: "list_all (\<lambda>f. FunctionInfo.line_start f \<le> FunctionInfo.line_end f)
                (extract_functions lang root source)"
    using nodes
    by (cases lang)
      (simp_all add: extract_functions_def py_extract_functions_def c_extract_functions_def
        cpp_extract_functions_def py_functions_ordered c_functions_ordered
        cpp_functions_ordered)
  have classes: "list_all (\<lambda>c. ClassInfo.line_start c \<le> ClassInfo.line_end c)
                   (extract_classes lang root source)"
    using nodes
    by (cases lang)
      (simp_all add: extract_classes_def py_extract_classes_def c_extract_classes_def
        cpp_extract_classes_def py_classes_ordered c_classes_ordered cpp_classes_ordered)
  show ?thesis
    using funs classes py_function_lines [of h source] py_class_lines [of n source]
      c_function_lines [of n source f] cpp_function_lines [of n source f]
      c_struct_lines [of n source c] cpp_class_lines [of n source c]
    by blast
qed

lemma struct_pointer_rows: "rows_ordered struct_pointer_tree"
  by code_simp

lemma struct_pointer_struct:
  "child_by_field_name struct_pointer_type ''body'' = None
   \<and> c_extract_struct struct_pointer_type struct_pointer_src =
       Some \<lparr>ClassInfo.name = ''S'', line_start = 1, line_end = 1, bases = None,
              docstring = None\<rparr>"
  by code_simp

lemma struct_pointer_classes:
  "extract_classes C struct_pointer_tree struct_pointer_src =
     [\<lparr>ClassInfo.name = ''S'', line_start = 1, line_end = 1, bases = None,
       docstring = None\<rparr>]"
  by code_simp

theorem line_range_ordered_witness:
  "rows_ordered method_local_tree
   \<and> map (\<lambda>f. (FunctionInfo.line_start f, FunctionInfo.line_end f))
       (extract_functions Python method_local_tree method_local_src) = [(2, 3)]
   \<and> list_all (\<lambda>f. FunctionInfo.line_start f \<le> FunctionInfo.line_end f)
       (extract_functions Python method_local_tree method_local_src)
   \<and> rows_ordered struct_pointer_tree
   \<and> list_all (\<lambda>c. ClassInfo.line_start c \<le> ClassInfo.line_end c)
       (extract_classes C struct_pointer_tree struct_pointer_src)
   \<and> child_by_field_name struct_pointer_type ''body'' = None
   \<and> map_option (\<lambda>c. (ClassInfo.line_start c, ClassInfo.line_end c))
       (c_extract_struct struct_pointer_type struct_pointer_src) = Some (1, 1)"
proof -
  note py = line_range_ordered [OF method_local_rows, of Python method_local_src]
  note c = line_range_ordered [OF struct_pointer_rows, of C struct_pointer_src
      "(struct_pointer_type, [])" struct_pointer_type undefined
      "\<lparr>ClassInfo.name = ''S'', line_start = 1, line_end = 1, bases = None,
        docstring = None\<rparr>"]
  have "extract_functions Python method_local_tree method_local_src =
          py_extract_functions method_local_tree method_local_src"
    by (simp add: extract_functions_def)
  then have a: "map (\<lambda>f. (FunctionInfo.line_start f, FunctionInfo.line_end f))
       (extract_functions Python method_local_tree method_local_src) = [(2, 3)]"
    by (simp add: method_local_functions)
  have b: "list_all (\<lambda>f. FunctionInfo.line_start f \<le> FunctionInfo.line_end f)
       (extract_functions Python method_local_tree method_local_src)"
    using py by simp
  have d: "list_all (\<lambda>c. ClassInfo.line_start c \<le> ClassInfo.line_end c)
       (extract_classes C struct_pointer_tree struct_pointer_src)"
    using c by simp
  have e: "map_option (\<lambda>c. (ClassInfo.line_start c, ClassInfo.line_end c))
       (c_extract_struct struct_pointer_type struct_pointer_src) = Some (1, 1)"
    using c struct_pointer_struct by simp
  show ?thesis
    using method_local_rows struct_pointer_rows struct_pointer_struct a b d e by simp
qed

section \<open>Functions whose name cannot be resolved\<close>




















section \<open>Python assignments inside a method body\<close>

lemma method_local_variables:
  "py_extract_variables method_local_tree method_local_src =
     [\<lparr>VariableInfo.name = ''x'', line = 3, scope = ''class'',
       class_name = Some ''C'', type_hint = None\<rparr>]"
  by code_simp

lemma method_local_ancestors:
  "[map type (snd h). h \<leftarrow> walk_tree method_local_tree, type (fst h) = ''assignment''] =
     [[''expression_statement'', ''block'', ''function_definition'', ''block'',
       ''class_definition'', ''module'']]"
  by code_simp

text \<open>
  What \<open>_extract_assignment\<close> does for an assignment to a plain name, by the place of
  the assignment: at module level, directly in the body of a named class, in a block
  with no named class above it, and in the body of a function that has a named class
  above it.
\<close>

lemma py_assignment_module_level:
  assumes "snd h = es # m # rest"
    and "type es = ''expression_statement''" and "type m = ''module''"
    and "child_by_field_name (fst h) ''left'' = Some l" and "type l = ''identifier''"
  shows "py_extract_assignment h source =
           [\<lparr>VariableInfo.name = get_node_text l source, line = start_row (fst h) + 1,
             scope = ''global'', class_name = None, type_hint = None\<rparr>]"
  using assms by (simp add: py_extract_assignment_def parent_def)

lemma py_assignment_class_body:
  assumes "snd h = es # blk # cls # rest"
    and "type es = ''expression_statement''" and "type blk = ''block''"
    and "type cls = ''class_definition''"
    and "child_by_field_name cls ''name'' = Some nn" and "get_node_text nn source \<noteq> []"
    and "child_by_field_name (fst h) ''left'' = Some l" and "type l = ''identifier''"
  shows "py_extract_assignment h source =
           [\<lparr>VariableInfo.name = get_node_text l source, line = start_row (fst h) + 1,
             scope = ''class'', class_name = Some (get_node_text nn source),
             type_hint = None\<rparr>]"
  using assms by (simp add: py_extract_assignment_def parent_def py_get_parent_class_def)

lemma py_assignment_plain_function:
  assumes "snd h = es # blk # rest"
    and "type es = ''expression_statement''" and "type blk = ''block''"
    and "py_parent_class_loop rest source = None"
  shows "py_extract_assignment h source = []"
  using assms by (simp add: py_extract_assignment_def parent_def py_get_parent_class_def)

lemma py_assignment_method_body:
  assumes "snd h = es # blk # fn # rest"
    and "type es = ''expression_statement''" and "type blk = ''block''"
    and "type fn = ''function_definition''"
    and "py_parent_class_loop rest source = Some cn" and "cn \<noteq> []"
    and "child_by_field_name (fst h) ''left'' = Some l" and "type l = ''identifier''"
  shows "py_extract_assignment h source =
           [\<lparr>VariableInfo.name = get_node_text l source, line = start_row (fst h) + 1,
             scope = ''class'', class_name = Some cn, type_hint = None\<rparr>]"
  using assms by (simp add: py_extract_assignment_def parent_def py_get_parent_class_def)

text \<open>
  C2 says that an assignment inside a function body, a method body included, yields no
  \<open>VariableInfo\<close>. In \<open>method_local_tree\<close> the assignment \<open>x = 1\<close> lies in the body of
  the method \<open>m\<close> of class \<open>C\<close>, and \<open>extract_variables\<close> reports it as a variable of
  scope \<open>class\<close> owned by \<open>C\<close>: the ancestor walk of \<open>_get_parent_class\<close> passes the
  enclosing function and finds the class.
\<close>

theorem method_body_assignment_emitted:
  "[map type (snd h). h \<leftarrow> walk_tree method_local_tree, type (fst h) = ''assignment''] =
     [[''expression_statement'', ''block'', ''function_definition'', ''block'',
       ''class_definition'', ''module'']]
   \<and> py_extract_variables method_local_tree method_local_src =
       [\<lparr>VariableInfo.name = ''x'', line = 3, scope = ''class'',
         class_name = Some ''C'', type_hint = None\<rparr>]"
  using method_local_ancestors method_local_variables by (rule conjI)

section \<open>Docstrings after the first statement\<close>

lemma late_string_docstring:
  "py_extract_docstring (Some late_string_body) late_string_src = Some ''oops''"
  by code_simp

lemma late_string_functions:
  "py_extract_functions late_string_tree late_string_src =
     [\<lparr>FunctionInfo.name = ''f'', line_start = 1, line_end = 3, signature = ''def f()'',
       class_name = None, docstring = Some ''oops''\<rparr>]"
  by code_simp

text \<open>
  The steps of the docstring loop that agree with the description: a comment is passed
  over, a statement that is neither an expression statement nor a comment ends the
  search, and a string in plain quotes is returned without its quotes.
\<close>

lemma docstring_loop_skips_comment:
  "type c = ''comment'' \<Longrightarrow> py_docstring_loop (c # rest) source = py_docstring_loop rest source"
  by simp

lemma docstring_loop_stops_at_statement:
  "type c \<noteq> ''expression_statement'' \<Longrightarrow> type c \<noteq> ''comment'' \<Longrightarrow>
     py_docstring_loop (c # rest) source = None"
  by simp

lemma docstring_loop_first_string:
  assumes "type c = ''expression_statement''" and "child c 0 = Some e" and "type e = ''string''"
  shows "startswith (get_node_text e source) [dquote, dquote, dquote]
           \<or> startswith (get_node_text e source) [squote, squote, squote] \<Longrightarrow>
         py_docstring_loop (c # rest) source
           = Some (strip (slice_inner 3 3 (get_node_text e source)))"
    and "\<not> startswith (get_node_text e source) [dquote, dquote, dquote] \<Longrightarrow>
         \<not> startswith (get_node_text e source) [squote, squote, squote] \<Longrightarrow>
         startswith (get_node_text e source) [dquote]
           \<or> startswith (get_node_text e source) [squote] \<Longrightarrow>
         py_docstring_loop (c # rest) source
           = Some (strip (slice_inner 1 1 (get_node_text e source)))"
  using assms by (simp_all add: Let_def)

text \<open>
  An expression statement that is not a string does not end the search: the loop goes
  on to the statements after it.
\<close>

lemma docstring_loop_passes_expression:
  "type c = ''expression_statement'' \<Longrightarrow> child c 0 = Some e \<Longrightarrow> type e \<noteq> ''string'' \<Longrightarrow>
     py_docstring_loop (c # rest) source = py_docstring_loop rest source"
  by simp

text \<open>
  C5 says that the docstring is \<open>None\<close> when the first statement that is not a comment
  is anything but a string. In \<open>late_string_tree\<close> the first statement of the body is the
  call \<open>g()\<close>, and the function is given the docstring \<open>oops\<close>, the string of its second
  statement.
\<close>

theorem docstring_from_later_statement:
  "map type (children late_string_body) = [''expression_statement'', ''expression_statement'']
   \<and> map (\<lambda>c. map type (children c)) (children late_string_body) = [[''call''], [''string'']]
   \<and> py_extract_docstring (Some late_string_body) late_string_src = Some ''oops''
   \<and> map FunctionInfo.docstring (py_extract_functions late_string_tree late_string_src)
       = [Some ''oops'']"
proof -
  have "map type (children late_string_body)
          = [''expression_statement'', ''expression_statement'']"
    by code_simp
  moreover have "map (\<lambda>c. map type (children c)) (children late_string_body)
          = [[''call''], [''string'']]"
    by code_simp
  ultimately show ?thesis
    by (simp add: late_string_docstring late_string_functions)
qed

section \<open>Declarator resolution\<close>

lemma c_params_outermost:
  "find is_function_declarator (c_decl_chain n) = Some d \<Longrightarrow>
     snd (c_extract_declarator_info n source) =
       (if child_by_field_name d ''declarator'' = None then ''()'' else own_params d source)"
proof (induction n rule: c_decl_chain.induct)
  case (1 n)
  show ?case
  proof (cases "type n = ''function_declarator''")
    case True
    then have "d = n"
      using "1.prems" by (subst (asm) c_decl_chain.simps) (simp add: is_function_declarator_def)
    then show ?thesis
      using True
      by (subst c_extract_declarator_info.simps)
        (simp add: own_params_def Let_def split: option.splits)
  next
    case False
    with "1.prems" obtain m where m: "c_decl_next n = Some m"
      and found: "find is_function_declarator (c_decl_chain m) = Some d"
      by (subst (asm) c_decl_chain.simps)
        (auto simp: is_function_declarator_def split: option.splits)
    have "c_extract_declarator_info n source = c_extract_declarator_info m source"
      using False m
      by (subst c_extract_declarator_info.simps)
        (auto simp: c_decl_next_def split: if_splits)
    then show ?thesis
      using "1.IH" [OF m found] by simp
  qed
qed

lemma cpp_params_outermost:
  "find is_function_declarator (cpp_decl_chain n) = Some d \<Longrightarrow>
     snd (cpp_extract_declarator_info n source) =
       (if child_by_field_name d ''declarator'' = None then ''()'' else own_params d source)"
proof (induction n rule: cpp_decl_chain.induct)
  case (1 n)
  show ?case
  proof (cases "type n = ''function_declarator''")
    case True
    then have "d = n"
      using "1.prems" by (subst (asm) cpp_decl_chain.simps) (simp add: is_function_declarator_def)
    then show ?thesis
      using True
      by (subst cpp_extract_declarator_info.simps)
        (simp add: own_params_def Let_def split: option.splits)
  next
    case False
    with "1.prems" obtain m where m: "cpp_decl_next n = Some m"
      and found: "find is_function_declarator (cpp_decl_chain m) = Some d"
      by (subst (asm) cpp_decl_chain.simps)
        (auto simp: is_function_declarator_def split: option.splits)
    have "cpp_extract_declarator_info n source = cpp_extract_declarator_info m source"
      using False m
      by (subst cpp_extract_declarator_info.simps)
        (auto simp: cpp_decl_next_def split: if_splits)
    then show ?thesis
      using "1.IH" [OF m found] by simp
  qed
qed

lemma c_resolve_end:
  "c_decl_next n = None \<Longrightarrow>
     c_extract_declarator_info n source =
       (if type n = ''identifier'' then Some (get_node_text n source) else None, ''()'')"
  by (subst c_extract_declarator_info.simps)
    (auto simp: c_decl_next_def Let_def split: if_splits)

lemma cpp_resolve_end:
  "cpp_decl_next n = None \<Longrightarrow>
     cpp_extract_declarator_info n source =
       (if type n = ''identifier'' \<or> type n = ''qualified_identifier''
           \<or> type n = ''field_identifier''
        then Some (get_node_text n source) else None, ''()'')"
  by (subst cpp_extract_declarator_info.simps)
    (auto simp: cpp_decl_next_def Let_def split: if_splits)

lemma c_resolve_wrapper:
  "type n = ''pointer_declarator'' \<or> type n = ''parenthesized_declarator'' \<Longrightarrow>
     c_extract_declarator_info n source =
       (case c_decl_next n of
          Some d \<Rightarrow> c_extract_declarator_info d source
        | None \<Rightarrow> (None, ''()''))"
  by (subst c_extract_declarator_info.simps) (auto simp: c_decl_next_def)

lemma cpp_resolve_wrapper:
  "type n = ''pointer_declarator'' \<or> type n = ''reference_declarator''
     \<or> type n = ''parenthesized_declarator'' \<Longrightarrow>
     cpp_extract_declarator_info n source =
       (case cpp_decl_next n of
          Some d \<Rightarrow> cpp_extract_declarator_info d source
        | None \<Rightarrow> (None, ''()''))"
  by (subst cpp_extract_declarator_info.simps) (auto simp: cpp_decl_next_def)

lemma c_resolve_step:
  assumes "c_decl_next n = Some m"
  shows "fst (c_extract_declarator_info n source) = fst (c_extract_declarator_info m source)"
proof (cases "type n = ''function_declarator''")
  case True
  with assms have decl: "child_by_field_name n ''declarator'' = Some m"
    by (simp add: c_decl_next_def)
  have m_id: "type m = ''identifier'' \<Longrightarrow>
      fst (c_extract_declarator_info m source) = Some (get_node_text m source)"
    by (subst c_extract_declarator_info.simps) simp
  show ?thesis
    using True decl m_id
    by (subst c_extract_declarator_info.simps) (simp add: Let_def)
next
  case False
  with assms have "type n = ''pointer_declarator'' \<or> type n = ''parenthesized_declarator''"
    by (auto simp: c_decl_next_def split: if_splits)
  then show ?thesis
    using assms by (simp add: c_resolve_wrapper)
qed

lemma cpp_resolve_step:
  assumes "cpp_decl_next n = Some m"
  shows "fst (cpp_extract_declarator_info n source) = fst (cpp_extract_declarator_info m source)"
proof (cases "type n = ''function_declarator''")
  case True
  with assms have decl: "child_by_field_name n ''declarator'' = Some m"
    by (simp add: cpp_decl_next_def)
  have m_id: "type m = ''identifier'' \<or> type m = ''qualified_identifier''
        \<or> type m = ''field_identifier'' \<Longrightarrow>
      fst (cpp_extract_declarator_info m source) = Some (get_node_text m source)"
    by (subst cpp_extract_declarator_info.simps) auto
  show ?thesis
    using True decl m_id
    by (subst cpp_extract_declarator_info.simps) (auto simp: Let_def)
next
  case False
  with assms have "type n = ''pointer_declarator'' \<or> type n = ''reference_declarator''
      \<or> type n = ''parenthesized_declarator''"
    by (auto simp: cpp_decl_next_def split: if_splits)
  then show ?thesis
    using assms by (simp add: cpp_resolve_wrapper)
qed

lemma c_decl_chain_nonempty: "c_decl_chain n \<noteq> []"
  by (subst c_decl_chain.simps) simp

lemma c_decl_chain_last:
  "last (c_decl_chain n) = (case c_decl_next n of None \<Rightarrow> n | Some d \<Rightarrow> last (c_decl_chain d))"
  by (subst c_decl_chain.simps) (simp add: c_decl_chain_nonempty split: option.splits)

lemma c_name_at_chain_end:
  "fst (c_extract_declarator_info n source) =
     (if type (last (c_decl_chain n)) = ''identifier''
      then Some (get_node_text (last (c_decl_chain n)) source) else None)"
proof (induction n rule: c_decl_chain.induct)
  case (1 n)
  show ?case
  proof (cases "c_decl_next n")
    case None
    then show ?thesis
      by (simp add: c_resolve_end c_decl_chain_last)
  next
    case (Some m)
    then show ?thesis
      using "1.IH" [OF Some] by (simp add: c_resolve_step c_decl_chain_last)
  qed
qed

lemma cpp_decl_chain_nonempty: "cpp_decl_chain n \<noteq> []"
  by (subst cpp_decl_chain.simps) simp

lemma cpp_decl_chain_last:
  "last (cpp_decl_chain n) =
     (case cpp_decl_next n of None \<Rightarrow> n | Some d \<Rightarrow> last (cpp_decl_chain d))"
  by (subst cpp_decl_chain.simps) (simp add: cpp_decl_chain_nonempty split: option.splits)

lemma cpp_name_at_chain_end:
  "fst (cpp_extract_declarator_info n source) =
     (if type (last (cpp_decl_chain n)) = ''identifier''
         \<or> type (last (cpp_decl_chain n)) = ''qualified_identifier''
         \<or> type (last (cpp_decl_chain n)) = ''field_identifier''
      then Some (get_node_text (last (cpp_decl_chain n)) source) else None)"
proof (induction n rule: cpp_decl_chain.induct)
  case (1 n)
  show ?case
  proof (cases "cpp_decl_next n")
    case None
    then show ?thesis
      by (simp add: cpp_resolve_end cpp_decl_chain_last)
  next
    case (Some m)
    then show ?thesis
      using "1.IH" [OF Some] by (simp add: cpp_resolve_step cpp_decl_chain_last)
  qed
qed

lemma c_unrecognized:
  "type n \<noteq> ''function_declarator'' \<Longrightarrow> type n \<noteq> ''pointer_declarator'' \<Longrightarrow>
   type n \<noteq> ''identifier'' \<Longrightarrow> type n \<noteq> ''parenthesized_declarator'' \<Longrightarrow>
     c_extract_declarator_info n source = (None, ''()'')"
  by (subst c_extract_declarator_info.simps) simp

lemma cpp_unrecognized:
  "type n \<noteq> ''function_declarator'' \<Longrightarrow> type n \<noteq> ''pointer_declarator'' \<Longrightarrow>
   type n \<noteq> ''reference_declarator'' \<Longrightarrow> type n \<noteq> ''identifier'' \<Longrightarrow>
   type n \<noteq> ''qualified_identifier'' \<Longrightarrow> type n \<noteq> ''field_identifier'' \<Longrightarrow>
   type n \<noteq> ''parenthesized_declarator'' \<Longrightarrow>
     cpp_extract_declarator_info n source = (None, ''()'')"
  by (subst cpp_extract_declarator_info.simps) simp

lemma fnptr_resolved:
  "c_extract_declarator_info outer_function_declarator fn_returning_fnptr_src
     = (Some ''f'', ''(double)'')"
  by code_simp

lemma fnptr_innermost:
  "last (filter is_function_declarator (c_decl_chain outer_function_declarator))
     = inner_function_declarator"
  by code_simp

lemma fnptr_inner_params:
  "own_params inner_function_declarator fn_returning_fnptr_src = ''(int a)''"
  by code_simp

lemma fnptr_outermost:
  "find is_function_declarator (c_decl_chain outer_function_declarator)
     = Some outer_function_declarator"
  by code_simp

lemma fnptr_outer_params:
  "own_params outer_function_declarator fn_returning_fnptr_src = ''(double)''"
  by code_simp

lemma fnptr_outer_has_declarator:
  "child_by_field_name outer_function_declarator ''declarator'' \<noteq> None"
  by code_simp

text \<open>
  The resolver in general. For a declarator chain that holds a \<open>function_declarator\<close>,
  the C and the C++ resolver return the parameter text of the outermost one (the first of
  the chain), or \<open>()\<close> when that node has no \<open>declarator\<close> field. The name is the text
  of the node the chain ends in when that node is an identifier (in C++ also a qualified
  or a field identifier), and there is no name otherwise. A pointer, reference (C++) or
  parenthesized declarator passes on the result for the node it wraps, and a node of any
  type the resolver does not know yields no name and the parameters \<open>()\<close>.
\<close>

theorem declarator_resolution:
  "(find is_function_declarator (c_decl_chain n) = Some d \<longrightarrow>
      snd (c_extract_declarator_info n source) =
        (if child_by_field_name d ''declarator'' = None then ''()'' else own_params d source))
   \<and> (find is_function_declarator (cpp_decl_chain n) = Some d \<longrightarrow>
      snd (cpp_extract_declarator_info n source) =
        (if child_by_field_name d ''declarator'' = None then ''()'' else own_params d source))
   \<and> fst (c_extract_declarator_info n source) =
       (if type (last (c_decl_chain n)) = ''identifier''
        then Some (get_node_text (last (c_decl_chain n)) source) else None)
   \<and> fst (cpp_extract_declarator_info n source) =
       (if type (last (cpp_decl_chain n)) = ''identifier''
           \<or> type (last (cpp_decl_chain n)) = ''qualified_identifier''
           \<or> type (last (cpp_decl_chain n)) = ''field_identifier''
        then Some (get_node_text (last (cpp_decl_chain n)) source) else None)
   \<and> (type n = ''pointer_declarator'' \<or> type n = ''parenthesized_declarator'' \<longrightarrow>
        c_extract_declarator_info n source =
          (case c_decl_next n of
             Some m \<Rightarrow> c_extract_declarator_info m source
           | None \<Rightarrow> (None, ''()'')))
   \<and> (type n = ''pointer_declarator'' \<or> type n = ''reference_declarator''
        \<or> type n = ''parenthesized_declarator'' \<longrightarrow>
        cpp_extract_declarator_info n source =
          (case cpp_decl_next n of
             Some m \<Rightarrow> cpp_extract_declarator_info m source
           | None \<Rightarrow> (None, ''()'')))
   \<and> (type n \<noteq> ''function_declarator'' \<and> type n \<noteq> ''pointer_declarator''
        \<and> type n \<noteq> ''identifier'' \<and> type n \<noteq> ''parenthesized_declarator'' \<longrightarrow>
        c_extract_declarator_info n source = (None, ''()''))
   \<and> (type n \<noteq> ''function_declarator'' \<and> type n \<noteq> ''pointer_declarator''
        \<and> type n \<noteq> ''reference_declarator'' \<and> type n \<noteq> ''identifier''
        \<and> type n \<noteq> ''qualified_identifier'' \<and> type n \<noteq> ''field_identifier''
        \<and> type n \<noteq> ''parenthesized_declarator'' \<longrightarrow>
        cpp_extract_declarator_info n source = (None, ''()''))"
  using c_params_outermost [of n d source] cpp_params_outermost [of n d source]
    c_name_at_chain_end [of n source] cpp_name_at_chain_end [of n source]
    c_resolve_wrapper [of n source] cpp_resolve_wrapper [of n source]
    c_unrecognized [of n source] cpp_unrecognized [of n source]
  by blast

lemma fnptr_outermost_cpp:
  "find is_function_declarator (cpp_decl_chain outer_function_declarator)
     = Some outer_function_declarator"
  by code_simp

lemma inner_pointer_next:
  "c_decl_next inner_pointer_declarator = Some inner_function_declarator
   \<and> cpp_decl_next inner_pointer_declarator = Some inner_function_declarator"
  by code_simp

theorem declarator_resolution_witness:
  "find is_function_declarator (c_decl_chain outer_function_declarator)
     = Some outer_function_declarator
   \<and> snd (c_extract_declarator_info outer_function_declarator fn_returning_fnptr_src)
       = ''(double)''
   \<and> snd (cpp_extract_declarator_info outer_function_declarator fn_returning_fnptr_src)
       = ''(double)''
   \<and> c_extract_declarator_info inner_pointer_declarator fn_returning_fnptr_src
       = c_extract_declarator_info inner_function_declarator fn_returning_fnptr_src
   \<and> cpp_extract_declarator_info inner_pointer_declarator fn_returning_fnptr_src
       = cpp_extract_declarator_info inner_function_declarator fn_returning_fnptr_src
   \<and> c_extract_declarator_info (leaf ''abstract_declarator'' 0 1 0) fn_returning_fnptr_src
       = (None, ''()'')
   \<and> cpp_extract_declarator_info (leaf ''abstract_declarator'' 0 1 0) fn_returning_fnptr_src
       = (None, ''()'')"
proof -
  note outer = declarator_resolution [of outer_function_declarator outer_function_declarator
      fn_returning_fnptr_src]
  note wrapper = declarator_resolution [of inner_pointer_declarator undefined
      fn_returning_fnptr_src]
  note other = declarator_resolution [of "leaf ''abstract_declarator'' 0 1 0" undefined
      fn_returning_fnptr_src]
  have a: "snd (c_extract_declarator_info outer_function_declarator fn_returning_fnptr_src)
          = ''(double)''"
    using outer fnptr_outermost fnptr_outer_params fnptr_outer_has_declarator by simp
  have b: "snd (cpp_extract_declarator_info outer_function_declarator fn_returning_fnptr_src)
          = ''(double)''"
    using outer fnptr_outermost_cpp fnptr_outer_params fnptr_outer_has_declarator by simp
  have ptr: "type inner_pointer_declarator = ''pointer_declarator''"
    by (simp add: inner_pointer_declarator_def)
  have c: "c_extract_declarator_info inner_pointer_declarator fn_returning_fnptr_src
       = c_extract_declarator_info inner_function_declarator fn_returning_fnptr_src"
    using wrapper ptr inner_pointer_next by simp
  have d: "cpp_extract_declarator_info inner_pointer_declarator fn_returning_fnptr_src
       = cpp_extract_declarator_info inner_function_declarator fn_returning_fnptr_src"
    using wrapper ptr inner_pointer_next by simp
  have ty: "type (leaf ''abstract_declarator'' 0 1 0) = ''abstract_declarator''"
    by (simp add: leaf_def)
  have e: "c_extract_declarator_info (leaf ''abstract_declarator'' 0 1 0)
        fn_returning_fnptr_src = (None, ''()'')"
    using other ty by simp
  have f: "cpp_extract_declarator_info (leaf ''abstract_declarator'' 0 1 0)
        fn_returning_fnptr_src = (None, ''()'')"
    using other ty by simp
  show ?thesis
    using fnptr_outermost a b c d e f by simp
qed

lemma fnptr_resolved_cpp:
  "cpp_extract_declarator_info outer_function_declarator fn_returning_fnptr_src
     = (Some ''f'', ''(double)'')"
  by code_simp

lemma fnptr_signatures:
  "map FunctionInfo.signature (c_extract_functions fn_returning_fnptr_tree fn_returning_fnptr_src)
     = [''int f(double)'']
   \<and> map FunctionInfo.signature
         (cpp_extract_functions fn_returning_fnptr_tree fn_returning_fnptr_src)
       = [''int f(double)'']"
  by code_simp

text \<open>
  C4. The claim asks for the parameter list of the innermost \<open>function_declarator\<close> of
  the chain. For \<open>int (*f(int a))(double) { return 0; }\<close> the chain holds two of them;
  the innermost, the one that names \<open>f\<close>, carries the parameters \<open>(int a)\<close>. Both
  resolvers return the name \<open>f\<close> together with \<open>(double)\<close>, the parameter list of the
  outer declarator, which belongs to the function type that \<open>f\<close> returns, and both
  extractors emit the function with the signature \<open>int f(double)\<close>.
\<close>

theorem nested_declarator_parameters:
  "c_extract_declarator_info outer_function_declarator fn_returning_fnptr_src
     = (Some ''f'', ''(double)'')
   \<and> cpp_extract_declarator_info outer_function_declarator fn_returning_fnptr_src
       = (Some ''f'', ''(double)'')
   \<and> last (filter is_function_declarator (c_decl_chain outer_function_declarator))
       = inner_function_declarator
   \<and> own_params inner_function_declarator fn_returning_fnptr_src = ''(int a)''
   \<and> map FunctionInfo.signature
         (c_extract_functions fn_returning_fnptr_tree fn_returning_fnptr_src)
       = [''int f(double)'']
   \<and> map FunctionInfo.signature
         (cpp_extract_functions fn_returning_fnptr_tree fn_returning_fnptr_src)
       = [''int f(double)'']"
  using fnptr_resolved fnptr_resolved_cpp fnptr_innermost fnptr_inner_params fnptr_signatures
  by simp

section \<open>Variables declared as pointers to functions\<close>

lemma c_get_var_name_other:
  "type d \<noteq> ''identifier'' \<Longrightarrow> type d \<noteq> ''init_declarator'' \<Longrightarrow>
   type d \<noteq> ''pointer_declarator'' \<Longrightarrow> type d \<noteq> ''array_declarator'' \<Longrightarrow>
     c_get_var_name d source = None"
  by (subst c_get_var_name.simps) simp

lemma c_get_var_name_init:
  "type d = ''init_declarator'' \<Longrightarrow> child_by_field_name d ''declarator'' = Some d' \<Longrightarrow>
     c_get_var_name d source = c_get_var_name d' source"
  by (subst c_get_var_name.simps) simp

lemma c_declaration_function_declarator:
  "child_by_field_name n ''declarator'' = Some d \<Longrightarrow> c_get_var_name d source = None \<Longrightarrow>
     c_extract_declaration n source = []"
  by (simp add: c_extract_declaration_def)

lemma c_variables_single:
  "c_variables_of [h] source =
     (if type (fst h) = ''declaration'' then
        (case parent h of
           Some par \<Rightarrow>
             if type (fst par) = ''translation_unit'' then c_extract_declaration (fst h) source
             else []
         | None \<Rightarrow> [])
      else [])"
  by (simp add: c_variables_of_def)

lemma fnptr_var_variables: "c_extract_variables fnptr_var_tree fnptr_var_src = []"
  by code_simp

lemma fnptr_var_resolved:
  "c_extract_declarator_info fnptr_var_declarator fnptr_var_src = (Some ''fp'', ''(void)'')"
  by code_simp

lemma fnptr_var_declarator_type: "type fnptr_var_declarator = ''function_declarator''"
  by (simp add: fnptr_var_declarator_def)

lemma fnptr_var_declarator_field:
  "child_by_field_name fnptr_var_declaration ''declarator'' = Some fnptr_var_declarator"
  by code_simp

text \<open>
  C6, as the claim states it, fails: for \<open>int (*fp)(void);\<close> at the top level of a C
  file, \<open>extract_variables\<close> emits nothing, although the declarator resolver of the
  function pass does find the name \<open>fp\<close> in that declarator.
\<close>

theorem function_pointer_variable_counterexample:
  "type fnptr_var_declarator = ''function_declarator''
   \<and> c_extract_declarator_info fnptr_var_declarator fnptr_var_src = (Some ''fp'', ''(void)'')
   \<and> c_extract_variables fnptr_var_tree fnptr_var_src = []"
  using fnptr_var_declarator_type fnptr_var_resolved fnptr_var_variables by simp

text \<open>
  C6, amended. \<open>_get_var_name\<close> of the C extractor knows four declarator types
  (\<open>identifier\<close>, \<open>init_declarator\<close>, \<open>pointer_declarator\<close>, \<open>array_declarator\<close>) and
  gives no name for any other. A global declaration whose declarator is a
  \<open>function_declarator\<close>, as for a pointer to a function, is therefore skipped, also when
  an initialiser wraps the declarator: \<open>extract_variables\<close> emits no \<open>VariableInfo\<close>
  for it.
\<close>

theorem function_pointer_variable_skipped:
  "(type d \<noteq> ''identifier'' \<and> type d \<noteq> ''init_declarator''
      \<and> type d \<noteq> ''pointer_declarator'' \<and> type d \<noteq> ''array_declarator''
      \<longrightarrow> c_get_var_name d source = None)
   \<and> (type d = ''function_declarator'' \<and> child_by_field_name n ''declarator'' = Some d
        \<longrightarrow> c_extract_declaration n source = [])
   \<and> (type d = ''function_declarator'' \<and> type i = ''init_declarator''
        \<and> child_by_field_name i ''declarator'' = Some d
        \<and> child_by_field_name n ''declarator'' = Some i
        \<longrightarrow> c_extract_declaration n source = [])
   \<and> (type d = ''function_declarator'' \<and> child_by_field_name (fst h) ''declarator'' = Some d
        \<longrightarrow> c_variables_of [h] source = [])"
proof -
  have other: "type d = ''function_declarator'' \<Longrightarrow> c_get_var_name d source = None"
    by (rule c_get_var_name_other) simp_all
  have direct: "type d = ''function_declarator'' \<Longrightarrow> child_by_field_name m ''declarator'' = Some d
      \<Longrightarrow> c_extract_declaration m source = []" for m
    using other by (simp add: c_declaration_function_declarator)
  have wrapped: "type d = ''function_declarator'' \<Longrightarrow> type i = ''init_declarator''
      \<Longrightarrow> child_by_field_name i ''declarator'' = Some d
      \<Longrightarrow> child_by_field_name n ''declarator'' = Some i
      \<Longrightarrow> c_extract_declaration n source = []"
    using other by (simp add: c_declaration_function_declarator c_get_var_name_init)
  have single: "type d = ''function_declarator''
      \<Longrightarrow> child_by_field_name (fst h) ''declarator'' = Some d
      \<Longrightarrow> c_variables_of [h] source = []"
    using direct [of "fst h"] by (simp add: c_variables_single split: option.splits)
  show ?thesis
    using c_get_var_name_other [of d source] direct [of n] wrapped single by blast
qed

lemma fnptr_init_fields:
  "type fnptr_init_declarator = ''init_declarator''
   \<and> child_by_field_name fnptr_init_declarator ''declarator'' = Some fnptr_var_declarator
   \<and> child_by_field_name fnptr_init_declaration ''declarator'' = Some fnptr_init_declarator"
  by code_simp

theorem function_pointer_variable_skipped_witness:
  "type fnptr_var_declarator = ''function_declarator''
   \<and> child_by_field_name fnptr_var_declaration ''declarator'' = Some fnptr_var_declarator
   \<and> c_get_var_name fnptr_var_declarator fnptr_var_src = None
   \<and> c_extract_declaration fnptr_var_declaration fnptr_var_src = []
   \<and> c_extract_declaration fnptr_init_declaration fnptr_init_src = []
   \<and> c_variables_of [(fnptr_var_declaration, [fnptr_var_tree])] fnptr_var_src = []"
proof -
  note plain = function_pointer_variable_skipped [of fnptr_var_declarator fnptr_var_src
      fnptr_var_declaration undefined "(fnptr_var_declaration, [fnptr_var_tree])"]
  note init = function_pointer_variable_skipped [of fnptr_var_declarator fnptr_init_src
      fnptr_init_declaration fnptr_init_declarator "(fnptr_var_declaration, [fnptr_var_tree])"]
  have a: "c_get_var_name fnptr_var_declarator fnptr_var_src = None"
    using plain fnptr_var_declarator_type by simp
  have b: "c_extract_declaration fnptr_var_declaration fnptr_var_src = []"
    using plain fnptr_var_declarator_type fnptr_var_declarator_field by simp
  have c: "c_extract_declaration fnptr_init_declaration fnptr_init_src = []"
    using init fnptr_var_declarator_type fnptr_init_fields by simp
  have d: "c_variables_of [(fnptr_var_declaration, [fnptr_var_tree])] fnptr_var_src = []"
    using plain fnptr_var_declarator_type fnptr_var_declarator_field by simp
  show ?thesis
    using fnptr_var_declarator_type fnptr_var_declarator_field a b c d by simp
qed

section \<open>Fields of classes and structs\<close>

lemma cpp_parent_class_loop_find:
  "cpp_parent_class_loop anc source =
     (case find (\<lambda>p. (type p = ''class_specifier'' \<or> type p = ''struct_specifier'')
                      \<and> child_by_field_name p ''name'' \<noteq> None) anc of
        None \<Rightarrow> None
      | Some p \<Rightarrow> map_option (\<lambda>nm. get_node_text nm source) (child_by_field_name p ''name''))"
  by (induction anc) (auto split: option.splits)

lemma cpp_field_emitted:
  "type (fst h) = ''field_declaration'' \<Longrightarrow> cpp_get_parent_class h source = Some cls \<Longrightarrow>
   cls \<noteq> [] \<Longrightarrow> child_by_field_name (fst h) ''declarator'' = Some d \<Longrightarrow>
   cpp_get_var_name d source = Some nm \<Longrightarrow> nm \<noteq> [] \<Longrightarrow>
     cpp_variables_of [h] source =
       [\<lparr>VariableInfo.name = nm, line = start_row (fst h) + 1, scope = ''class'',
         class_name = Some cls,
         type_hint = map_option (\<lambda>t. get_node_text t source)
                       (child_by_field_name (fst h) ''type'')\<rparr>]"
  by (simp add: cpp_variables_of_def cpp_extract_field_def)

lemma cpp_variables_concat:
  "cpp_variables_of nodes source = concat (map (\<lambda>h. cpp_variables_of [h] source) nodes)"
  by (simp add: cpp_variables_of_def)

lemma c_variables_global:
  "list_all (\<lambda>v. scope v = ''global'' \<and> VariableInfo.class_name v = None)
     (c_variables_of nodes source)"
  unfolding c_variables_of_def
  by (rule list_all_concat_map)
    (simp add: c_extract_declaration_def split: option.splits)

lemma c_variables_field:
  "type (fst h) = ''field_declaration'' \<Longrightarrow> c_variables_of [h] source = []"
  by (simp add: c_variables_of_def)

lemma struct_field_ancestors:
  "[map type (snd h). h \<leftarrow> walk_tree struct_field_tree, type (fst h) = ''field_declaration'']
     = [[''field_declaration_list'', ''struct_specifier'', ''translation_unit'']]"
  by code_simp

lemma struct_field_classes:
  "map ClassInfo.name (c_extract_classes struct_field_tree struct_field_src) = [''S'']"
  by code_simp

lemma struct_field_variables: "c_extract_variables struct_field_tree struct_field_src = []"
  by code_simp

lemma nested_field_variables:
  "concat (map (\<lambda>h. cpp_variables_of [h] nested_field_src) (preorder [] nested_field_tree)) =
     [\<lparr>VariableInfo.name = ''u'', line = 1, scope = ''class'', class_name = Some ''A'',
       type_hint = Some ''struct { int y; }''\<rparr>,
      \<lparr>VariableInfo.name = ''y'', line = 1, scope = ''class'', class_name = Some ''A'',
       type_hint = Some ''int''\<rparr>]"
  by code_simp

text \<open>
  C7, as the claim states it, fails for the C extractor: the field \<open>x\<close> of the named
  struct \<open>S\<close> gives no \<open>VariableInfo\<close>.
\<close>

theorem c_field_counterexample:
  "[map type (snd h). h \<leftarrow> walk_tree struct_field_tree, type (fst h) = ''field_declaration'']
     = [[''field_declaration_list'', ''struct_specifier'', ''translation_unit'']]
   \<and> map ClassInfo.name (c_extract_classes struct_field_tree struct_field_src) = [''S'']
   \<and> c_extract_variables struct_field_tree struct_field_src = []"
  using struct_field_ancestors struct_field_classes struct_field_variables by simp

text \<open>
  C7, amended. Only the C++ extractor reports fields. For a \<open>field_declaration\<close> node
  at any depth, the owning class is the nearest ancestor that is a \<open>class_specifier\<close> or
  \<open>struct_specifier\<close> with a \<open>name\<close> field; when there is one with a non-empty name and
  \<open>_get_var_name\<close> finds a non-empty name in the declarator, \<open>extract_variables\<close> emits
  for the node a \<open>VariableInfo\<close> of scope \<open>class\<close> with that class as \<open>class_name\<close>.
  The C extractor emits nothing for a \<open>field_declaration\<close> node, and everything it
  emits has scope \<open>global\<close> and no \<open>class_name\<close>.
\<close>

theorem field_declarations_class_scoped:
  "list_all (\<lambda>v. scope v = ''global'' \<and> VariableInfo.class_name v = None)
     (c_extract_variables root source)
   \<and> (type (fst h) = ''field_declaration'' \<longrightarrow> c_variables_of [h] source = [])
   \<and> cpp_extract_variables root source =
       concat (map (\<lambda>h. cpp_variables_of [h] source) (preorder [] root))
   \<and> (type (fst h) = ''field_declaration'' \<and> cpp_get_parent_class h source = Some cls
        \<and> cls \<noteq> [] \<and> child_by_field_name (fst h) ''declarator'' = Some d
        \<and> cpp_get_var_name d source = Some nm \<and> nm \<noteq> []
        \<longrightarrow> cpp_variables_of [h] source =
              [\<lparr>VariableInfo.name = nm, line = start_row (fst h) + 1, scope = ''class'',
                class_name = Some cls,
                type_hint = map_option (\<lambda>t. get_node_text t source)
                              (child_by_field_name (fst h) ''type'')\<rparr>])
   \<and> cpp_get_parent_class h source =
       (case find (\<lambda>p. (type p = ''class_specifier'' \<or> type p = ''struct_specifier'')
                        \<and> child_by_field_name p ''name'' \<noteq> None) (snd h) of
          None \<Rightarrow> None
        | Some p \<Rightarrow> map_option (\<lambda>nm. get_node_text nm source) (child_by_field_name p ''name''))"
proof -
  have a: "list_all (\<lambda>v. scope v = ''global'' \<and> VariableInfo.class_name v = None)
             (c_extract_variables root source)"
    by (simp add: c_extract_variables_def c_variables_global)
  have b: "cpp_extract_variables root source =
             concat (map (\<lambda>h. cpp_variables_of [h] source) (preorder [] root))"
    unfolding cpp_extract_variables_def walk_tree_preorder by (rule cpp_variables_concat)
  have c: "cpp_get_parent_class h source =
       (case find (\<lambda>p. (type p = ''class_specifier'' \<or> type p = ''struct_specifier'')
                        \<and> child_by_field_name p ''name'' \<noteq> None) (snd h) of
          None \<Rightarrow> None
        | Some p \<Rightarrow> map_option (\<lambda>nm. get_node_text nm source) (child_by_field_name p ''name''))"
    unfolding cpp_get_parent_class_def by (rule cpp_parent_class_loop_find)
  show ?thesis
    using a b c c_variables_field [of h source] cpp_field_emitted [of h source cls d nm]
    by blast
qed

lemma nested_inner_field_facts:
  "type (fst nested_inner_field) = ''field_declaration''
   \<and> cpp_get_parent_class nested_inner_field nested_field_src = Some ''A''
   \<and> child_by_field_name (fst nested_inner_field) ''declarator''
       = Some (leaf ''field_identifier'' 23 24 0)
   \<and> cpp_get_var_name (leaf ''field_identifier'' 23 24 0) nested_field_src = Some ''y''
   \<and> map_option (\<lambda>t. get_node_text t nested_field_src)
         (child_by_field_name (fst nested_inner_field) ''type'') = Some ''int''
   \<and> start_row (fst nested_inner_field) = 0"
  by code_simp

lemma nested_inner_field_ancestors:
  "map type (snd nested_inner_field) =
     [''field_declaration_list'', ''struct_specifier'', ''field_declaration'',
      ''field_declaration_list'', ''class_specifier'', ''translation_unit'']"
  by code_simp

theorem field_declarations_class_scoped_witness:
  "cpp_extract_variables nested_field_tree nested_field_src =
     [\<lparr>VariableInfo.name = ''u'', line = 1, scope = ''class'', class_name = Some ''A'',
       type_hint = Some ''struct { int y; }''\<rparr>,
      \<lparr>VariableInfo.name = ''y'', line = 1, scope = ''class'', class_name = Some ''A'',
       type_hint = Some ''int''\<rparr>]
   \<and> map type (snd nested_inner_field) =
       [''field_declaration_list'', ''struct_specifier'', ''field_declaration'',
        ''field_declaration_list'', ''class_specifier'', ''translation_unit'']
   \<and> cpp_variables_of [nested_inner_field] nested_field_src =
       [\<lparr>VariableInfo.name = ''y'', line = 1, scope = ''class'', class_name = Some ''A'',
         type_hint = Some ''int''\<rparr>]
   \<and> c_variables_of [nested_inner_field] nested_field_src = []
   \<and> list_all (\<lambda>v. scope v = ''global'' \<and> VariableInfo.class_name v = None)
       (c_extract_variables struct_field_tree struct_field_src)"
proof -
  note whole = field_declarations_class_scoped [of nested_field_tree nested_field_src
      "(nested_field_tree, [])" undefined undefined undefined]
  note field = field_declarations_class_scoped [of nested_field_tree nested_field_src
      nested_inner_field "''A''" "leaf ''field_identifier'' 23 24 0" "''y''"]
  note plain = field_declarations_class_scoped [of struct_field_tree struct_field_src
      "(struct_field_tree, [])" undefined undefined undefined]
  have a: "cpp_extract_variables nested_field_tree nested_field_src =
     [\<lparr>VariableInfo.name = ''u'', line = 1, scope = ''class'', class_name = Some ''A'',
       type_hint = Some ''struct { int y; }''\<rparr>,
      \<lparr>VariableInfo.name = ''y'', line = 1, scope = ''class'', class_name = Some ''A'',
       type_hint = Some ''int''\<rparr>]"
    using whole by (simp add: nested_field_variables)
  have b: "cpp_variables_of [nested_inner_field] nested_field_src =
       [\<lparr>VariableInfo.name = ''y'', line = 1, scope = ''class'', class_name = Some ''A'',
         type_hint = Some ''int''\<rparr>]"
    using field nested_inner_field_facts by simp
  have c: "c_variables_of [nested_inner_field] nested_field_src = []"
    using field nested_inner_field_facts by simp
  have d: "list_all (\<lambda>v. scope v = ''global'' \<and> VariableInfo.class_name v = None)
       (c_extract_variables struct_field_tree struct_field_src)"
    using plain by simp
  show ?thesis
    using a b c d nested_inner_field_ancestors by simp
qed

section \<open>Repeated extraction\<close>

lemma walk_loop_fresh: "walk_loop (node_walk root) False = (preorder [] root, node_walk root)"
  by (simp add: walk_loop_preorder node_walk_def cursor_root_def)

lemma extract_functions_preorder:
  "extract_functions lang root source = functions_of lang (preorder [] root) source"
  by (cases lang)
    (simp_all add: extract_functions_def functions_of_def py_extract_functions_def
      c_extract_functions_def cpp_extract_functions_def walk_tree_preorder)

lemma extract_classes_preorder:
  "extract_classes lang root source = classes_of lang (preorder [] root) source"
  by (cases lang)
    (simp_all add: extract_classes_def classes_of_def py_extract_classes_def
      c_extract_classes_def cpp_extract_classes_def walk_tree_preorder)

lemma extract_imports_preorder:
  "extract_imports lang root source = imports_of lang (preorder [] root) source"
  by (cases lang)
    (simp_all add: extract_imports_def imports_of_def py_extract_imports_def
      c_extract_imports_def cpp_extract_imports_def walk_tree_preorder)

lemma extract_variables_preorder:
  "extract_variables lang root source = variables_of lang (preorder [] root) source"
  by (cases lang)
    (simp_all add: extract_variables_def variables_of_def py_extract_variables_def
      c_extract_variables_def cpp_extract_variables_def walk_tree_preorder)

lemma extract_calls_of_preorder:
  "extract_calls lang root source =
     calls_of lang (func_ranges lang (preorder [] root) source) (preorder [] root) source"
  by (cases lang)
    (simp_all add: extract_calls_def calls_of_def func_ranges_def py_extract_calls_def
      c_extract_calls_def cpp_extract_calls_def walk_tree_preorder)

text \<open>
  The loop on the object at \<open>a\<close> yields what the loop on the cursor value yields, writes
  to no other object, and leaves at \<open>a\<close> the cursor on which the loop ends.
\<close>

lemma walk_loop_at_cursor:
  "a < length s \<Longrightarrow>
     walk_loop_at a visited s =
       (fst (walk_loop (s ! a) visited), s[a := snd (walk_loop (s ! a) visited)])"
proof (induction a visited s rule: walk_loop_at.induct)
  case (1 a visited s)
  let ?c = "s ! a"
  let ?out = "if visited then [] else [cursor_node ?c]"
  have len: "\<not> length s \<le> a" using "1.prems" by simp
  show ?case
  proof (cases "if visited then None else goto_first_child ?c")
    case (Some c1)
    have ih: "walk_loop_at a False (s[a := c1]) =
        (fst (walk_loop c1 False), s[a := snd (walk_loop c1 False)])"
      using "1.IH"(3) [OF len refl Some] "1.prems" by simp
    have wl: "walk_loop ?c visited = (?out @ fst (walk_loop c1 False), snd (walk_loop c1 False))"
      by (subst walk_loop.simps) (simp add: Some Let_def case_prod_unfold)
    show ?thesis
      unfolding wl
      by (subst walk_loop_at.simps) (simp add: len Some ih Let_def)
  next
    case no_child: None
    show ?thesis
    proof (cases "goto_next_sibling ?c")
      case (Some c2)
      have ih: "walk_loop_at a False (s[a := c2]) =
          (fst (walk_loop c2 False), s[a := snd (walk_loop c2 False)])"
        using "1.IH"(2) [OF len refl no_child Some] "1.prems" by simp
      have wl: "walk_loop ?c visited =
          (?out @ fst (walk_loop c2 False), snd (walk_loop c2 False))"
        by (subst walk_loop.simps) (simp add: no_child Some Let_def case_prod_unfold)
      show ?thesis
        unfolding wl
        by (subst walk_loop_at.simps) (simp add: len no_child Some ih Let_def)
    next
      case no_sibling: None
      show ?thesis
      proof (cases "goto_parent ?c")
        case (Some c3)
        have ih: "walk_loop_at a True (s[a := c3]) =
            (fst (walk_loop c3 True), s[a := snd (walk_loop c3 True)])"
          using "1.IH"(1) [OF len refl no_child no_sibling Some] "1.prems" by simp
        have wl: "walk_loop ?c visited =
            (?out @ fst (walk_loop c3 True), snd (walk_loop c3 True))"
          by (subst walk_loop.simps)
            (simp add: no_child no_sibling Some Let_def case_prod_unfold)
        show ?thesis
          unfolding wl
          by (subst walk_loop_at.simps) (simp add: len no_child no_sibling Some ih Let_def)
      next
        case None
        have wl: "walk_loop ?c visited = (?out, ?c)"
          by (subst walk_loop.simps) (simp add: no_child no_sibling None Let_def)
        show ?thesis
          unfolding wl
          by (subst walk_loop_at.simps) (simp add: len no_child no_sibling None Let_def)
      qed
    qed
  qed
qed

lemma run_walk_tree_result:
  "run_walk_tree root s = (preorder [] root, s @ [node_walk root])"
  by (simp add: run_walk_tree_def new_cursor_def walk_loop_at_cursor walk_loop_fresh)

lemma run_extract_functions_result:
  "run_extract_functions lang root source s =
     (extract_functions lang root source, s @ [node_walk root])"
  by (simp add: run_extract_functions_def run_walk_tree_result extract_functions_preorder)

lemma run_extract_classes_result:
  "run_extract_classes lang root source s =
     (extract_classes lang root source, s @ [node_walk root])"
  by (simp add: run_extract_classes_def run_walk_tree_result extract_classes_preorder)

lemma run_extract_imports_result:
  "run_extract_imports lang root source s =
     (extract_imports lang root source, s @ [node_walk root])"
  by (simp add: run_extract_imports_def run_walk_tree_result extract_imports_preorder)

lemma run_extract_variables_result:
  "run_extract_variables lang root source s =
     (extract_variables lang root source, s @ [node_walk root])"
  by (simp add: run_extract_variables_def run_walk_tree_result extract_variables_preorder)

lemma run_extract_calls_result:
  "run_extract_calls lang root source s =
     (extract_calls lang root source, s @ [node_walk root, node_walk root])"
  by (simp add: run_extract_calls_def run_walk_tree_result extract_calls_of_preorder)

text \<open>
  C9. Running an operation twice on the same tree and source gives the same list. A run
  starts from the store as the runs before it have left it; the second of two runs of an
  operation, started from the store the first one leaves, returns the list the first one
  returned. A run returns the same list from every store, and it has no effect on what
  was there before it: the store after the run is the store before it followed by the
  cursors the run has made (one for each walk), each left at the root.
\<close>

theorem extraction_repeatable:
  "fst (run_extract_functions lang root source (snd (run_extract_functions lang root source s)))
     = fst (run_extract_functions lang root source s)
   \<and> fst (run_extract_classes lang root source (snd (run_extract_classes lang root source s)))
       = fst (run_extract_classes lang root source s)
   \<and> fst (run_extract_imports lang root source (snd (run_extract_imports lang root source s)))
       = fst (run_extract_imports lang root source s)
   \<and> fst (run_extract_variables lang root source
           (snd (run_extract_variables lang root source s)))
       = fst (run_extract_variables lang root source s)
   \<and> fst (run_extract_calls lang root source (snd (run_extract_calls lang root source s)))
       = fst (run_extract_calls lang root source s)
   \<and> fst (run_extract_functions lang root source s)
       = fst (run_extract_functions lang root source s')
   \<and> fst (run_extract_classes lang root source s)
       = fst (run_extract_classes lang root source s')
   \<and> fst (run_extract_imports lang root source s)
       = fst (run_extract_imports lang root source s')
   \<and> fst (run_extract_variables lang root source s)
       = fst (run_extract_variables lang root source s')
   \<and> fst (run_extract_calls lang root source s)
       = fst (run_extract_calls lang root source s')
   \<and> snd (run_extract_functions lang root source s) = s @ [node_walk root]
   \<and> snd (run_extract_classes lang root source s) = s @ [node_walk root]
   \<and> snd (run_extract_imports lang root source s) = s @ [node_walk root]
   \<and> snd (run_extract_variables lang root source s) = s @ [node_walk root]
   \<and> snd (run_extract_calls lang root source s) = s @ [node_walk root, node_walk root]"
  by (simp add: run_extract_functions_result run_extract_classes_result
      run_extract_imports_result run_extract_variables_result run_extract_calls_result)

end
